theory Spec2Isabelle
  imports Complex_Main "HOL-Library.AList"
begin

section \<open>Python outcomes\<close>

text \<open>
  A Python call either returns a value or lets an exception escape to its caller.
  Exceptions carry their message only.
\<close>

datatype pyexn = PyExn string

datatype 'a outcome = Returned 'a | Raised pyexn

section \<open>Strategy store (strategy\_manager.py)\<close>

text \<open>
  One stored strategy is the dict built by \<open>add_strategy\<close>: id, name, description, code,
  created\_at and status, all strings.
\<close>

record strategy =
  s_id :: string
  s_name :: string
  s_description :: string
  s_code :: string
  s_created_at :: string
  s_status :: string

text \<open>
  The manager holds the in-memory list \<open>self.strategies\<close>. The rest is the file system
  as \<open>_save_strategies\<close> meets it: whether \<open>os.makedirs\<close> on the directory part of the
  file name succeeds, how the write goes, and what the file holds (\<open>None\<close> when it is
  left truncated or partly written, so not valid JSON). \<open>err_log\<close> collects the messages
  passed to \<open>logger.error\<close>.
\<close>

datatype io_mode = Write_ok | Open_fails | Dump_fails

record manager =
  strategies :: "strategy list"
  dir_ok :: bool
  io :: io_mode
  file_content :: "strategy list option"
  err_log :: "string list"

text \<open>
  The body of the \<open>try\<close> in \<open>_save_strategies\<close>. \<open>open(..., 'w')\<close> either raises and
  leaves the file alone, or truncates it; \<open>json.dump\<close> then writes the list, or raises
  with the file already truncated.
\<close>

definition write_file :: "manager \<Rightarrow> manager \<times> unit outcome" where
  "write_file m =
     (case io m of
        Write_ok \<Rightarrow> (m\<lparr>file_content := Some (strategies m)\<rparr>, Returned ())
      | Open_fails \<Rightarrow> (m, Raised (PyExn ''cannot open strategy file''))
      | Dump_fails \<Rightarrow> (m\<lparr>file_content := None\<rparr>, Raised (PyExn ''cannot write strategy file'')))"

text \<open>
  \<open>_save_strategies\<close>: \<open>os.makedirs\<close> stands before the \<open>try\<close>, so its exception goes
  to the caller; the \<open>except Exception\<close> branch logs and falls through.
\<close>

definition save_strategies :: "manager \<Rightarrow> manager \<times> unit outcome" where
  "save_strategies m =
     (if \<not> dir_ok m then (m, Raised (PyExn ''cannot create directory''))
      else case write_file m of
             (m', Returned u) \<Rightarrow> (m', Returned ())
           | (m', Raised (PyExn msg)) \<Rightarrow>
               (m'\<lparr>err_log := err_log m' @ [''Failed to save strategies: '' @ msg]\<rparr>,
                Returned ()))"

text \<open>
  \<open>add_strategy\<close>: \<open>uuid\<close> is the text of the freshly drawn \<open>uuid.uuid4()\<close> and \<open>now\<close> the
  ISO timestamp; both come from the environment.
\<close>

definition add_strategy ::
  "string \<Rightarrow> string \<Rightarrow> string \<Rightarrow> string \<Rightarrow> string \<Rightarrow> manager \<Rightarrow> manager \<times> string outcome" where
  "add_strategy uuid now name description code m =
     (let strategy_id = take 8 uuid;
          new_strategy = \<lparr>s_id = strategy_id, s_name = name, s_description = description,
                          s_code = code, s_created_at = now, s_status = ''active''\<rparr>;
          m1 = m\<lparr>strategies := strategies m @ [new_strategy]\<rparr>
      in case save_strategies m1 of
           (m2, Raised e) \<Rightarrow> (m2, Raised e)
         | (m2, Returned u) \<Rightarrow> (m2, Returned strategy_id))"

definition delete_strategy :: "string \<Rightarrow> manager \<Rightarrow> manager \<times> bool outcome" where
  "delete_strategy strategy_id m =
     (let initial_len = length (strategies m);
          m1 = m\<lparr>strategies := filter (\<lambda>s. s_id s \<noteq> strategy_id) (strategies m)\<rparr>
      in if length (strategies m1) < initial_len
         then (case save_strategies m1 of
                 (m2, Raised e) \<Rightarrow> (m2, Raised e)
               | (m2, Returned u) \<Rightarrow> (m2, Returned True))
         else (m1, Returned False))"

text \<open>
  The loop of \<open>toggle_strategy\<close> rewrites the status of the first record with the id and
  stops; \<open>set_status\<close> is that loop on the list, \<open>None\<close> when it runs off the end.
\<close>

fun set_status :: "string \<Rightarrow> string \<Rightarrow> strategy list \<Rightarrow> strategy list option" where
  "set_status strategy_id new_status [] = None"
| "set_status strategy_id new_status (s # ss) =
     (if s_id s = strategy_id then Some (s\<lparr>s_status := new_status\<rparr> # ss)
      else map_option ((#) s) (set_status strategy_id new_status ss))"

definition toggle_strategy :: "string \<Rightarrow> string \<Rightarrow> manager \<Rightarrow> manager \<times> bool outcome" where
  "toggle_strategy strategy_id new_status m =
     (case set_status strategy_id new_status (strategies m) of
        Some ss \<Rightarrow>
          (case save_strategies (m\<lparr>strategies := ss\<rparr>) of
             (m2, Raised e) \<Rightarrow> (m2, Raised e)
           | (m2, Returned u) \<Rightarrow> (m2, Returned True))
      | None \<Rightarrow> (m, Returned False))"

definition get_strategy :: "string \<Rightarrow> manager \<Rightarrow> strategy option" where
  "get_strategy strategy_id m = find (\<lambda>s. s_id s = strategy_id) (strategies m)"

definition get_active_strategies :: "manager \<Rightarrow> strategy list" where
  "get_active_strategies m = filter (\<lambda>s. s_status s = ''active'') (strategies m)"

definition list_strategies :: "manager \<Rightarrow> strategy list" where
  "list_strategies m = strategies m"

section \<open>Price data and the object store\<close>

text \<open>
  One row of a price frame: the six fields that the snapshot dict and the history files
  carry. Dates are day numbers, prices and volumes are reals standing for the floats.
\<close>

record bar =
  b_date :: int
  b_open :: real
  b_high :: real
  b_low :: real
  b_close :: real
  b_volume :: real

text \<open>
  A DataFrame: the names in \<open>df.columns\<close>, the names of the columns whose dtype is
  int64 (the others hold floats), the rows of price fields, and the further columns
  assigned by name (\<open>None\<close> in a cell is NaN). A field of \<open>rows\<close> whose name is not in
  \<open>columns\<close> is never read.
\<close>

record frame =
  columns :: "string list"
  int_cols :: "string list"
  rows :: "bar list"
  extra :: "string \<rightharpoonup> real option list"

text \<open>
  DataFrames are mutable objects reached by reference. The store is the list of all frames
  allocated so far, a reference is an index into it, and allocation appends.
\<close>

type_synonym store = "frame list"

type_synonym ref = nat

text \<open>\<open>df.copy()\<close>: a new object with the same content.\<close>

definition df_copy :: "store \<Rightarrow> ref \<Rightarrow> store \<times> ref" where
  "df_copy hp df = (hp @ [hp ! df], length hp)"

text \<open>
  \<open>pd.concat([df, pd.DataFrame([row])], ignore_index=True)\<close>: a new object, the rows of
  \<open>df\<close> followed by \<open>row\<close>; columns that the row lacks get NaN in the new row, and the six
  names of the row are added to the columns when missing. The row holds floats, so no
  column of the result is int64.
\<close>

definition bar_keys :: "string list" where
  "bar_keys = [''date'', ''open'', ''high'', ''low'', ''close'', ''volume'']"

definition df_concat_row :: "store \<Rightarrow> ref \<Rightarrow> bar \<Rightarrow> store \<times> ref" where
  "df_concat_row hp df row =
     (hp @ [\<lparr>columns = columns (hp ! df) @ filter (\<lambda>k. k \<notin> set (columns (hp ! df))) bar_keys,
             int_cols = [],
             rows = rows (hp ! df) @ [row],
             extra = map_option (\<lambda>c. c @ [None]) \<circ> extra (hp ! df)\<rparr>],
      length hp)"

text \<open>The five columns rewritten by an intraday refresh, in the order of the source.\<close>

datatype price_col = Open | High | Low | Close | Volume

definition set_field :: "price_col \<Rightarrow> bar \<Rightarrow> bar \<Rightarrow> bar" where
  "set_field col snapshot b =
     (case col of
        Open \<Rightarrow> b\<lparr>b_open := b_open snapshot\<rparr>
      | High \<Rightarrow> b\<lparr>b_high := b_high snapshot\<rparr>
      | Low \<Rightarrow> b\<lparr>b_low := b_low snapshot\<rparr>
      | Close \<Rightarrow> b\<lparr>b_close := b_close snapshot\<rparr>
      | Volume \<Rightarrow> b\<lparr>b_volume := b_volume snapshot\<rparr>)"

definition col_name :: "price_col \<Rightarrow> string" where
  "col_name col =
     (case col of Open \<Rightarrow> ''open'' | High \<Rightarrow> ''high'' | Low \<Rightarrow> ''low''
      | Close \<Rightarrow> ''close'' | Volume \<Rightarrow> ''volume'')"

definition col_value :: "price_col \<Rightarrow> bar \<Rightarrow> real" where
  "col_value col snapshot =
     (case col of Open \<Rightarrow> b_open snapshot | High \<Rightarrow> b_high snapshot | Low \<Rightarrow> b_low snapshot
      | Close \<Rightarrow> b_close snapshot | Volume \<Rightarrow> b_volume snapshot)"

text \<open>
  A float that an int64 column cannot hold without loss: one that is not a whole number.
  Writing it into such a column raises TypeError (pandas 3; earlier versions widen the
  column with a warning).
\<close>

definition lossy_write :: "frame \<Rightarrow> price_col \<Rightarrow> bar \<Rightarrow> bool" where
  "lossy_write df col snapshot =
     (col_name col \<in> set (int_cols df)
      \<and> real_of_int \<lfloor>col_value col snapshot\<rfloor> \<noteq> col_value col snapshot)"

text \<open>
  \<open>df.at[df.index[-1], col] = snapshot[col]\<close>: an in-place write to the object, or
  TypeError. A column that the frame lacks is added by the write.
\<close>

definition df_set_last :: "store \<Rightarrow> ref \<Rightarrow> price_col \<Rightarrow> bar \<Rightarrow> pyexn + store" where
  "df_set_last hp df col snapshot =
     (if lossy_write (hp ! df) col snapshot
      then Inl (PyExn ''TypeError: invalid value for dtype int64'')
      else Inr (hp[df := (hp ! df)
                  \<lparr>columns := (if col_name col \<in> set (columns (hp ! df)) then columns (hp ! df)
                                else columns (hp ! df) @ [col_name col]),
                   rows := butlast (rows (hp ! df))
                             @ [set_field col snapshot (last (rows (hp ! df)))]\<rparr>]))"

text \<open>The loop over the five columns; the first write that raises ends it.\<close>

fun set_last_cols :: "store \<Rightarrow> ref \<Rightarrow> price_col list \<Rightarrow> bar \<Rightarrow> pyexn + store" where
  "set_last_cols hp df [] snapshot = Inr hp"
| "set_last_cols hp df (col # cols) snapshot =
     (case df_set_last hp df col snapshot of
        Inl e \<Rightarrow> Inl e
      | Inr hp1 \<Rightarrow> set_last_cols hp1 df cols snapshot)"

section \<open>Strategies\<close>

text \<open>
  What a compiled \<open>generate_signals\<close> does when called on a frame: it raises, or returns
  a pandas Series of signal values (\<open>None\<close> is NaN), or returns something that is not a
  Series, here a scalar. Strategies are functions of the content of the frame they are
  given and do not write to it (the strategy contract).
\<close>

datatype strat_out = Raises pyexn | Scalar "real option" | Series "real option list"

type_synonym strategy_func = "frame \<Rightarrow> strat_out"

section \<open>Real-time monitor (monitor.py)\<close>

record alert =
  a_stock :: string
  a_price :: real
  a_strategy :: string
  a_signal :: string
  a_time :: string

text \<open>
  The monitor: its stock list, its own strategy manager, the dict of compiled strategies
  (insertion ordered, so an association list) and the dict from stock code to the cached
  history frame, held by reference.
\<close>

record monitor =
  stock_list :: "string list"
  strategy_mgr :: manager
  compiled_strategies :: "(string \<times> strategy_func) list"
  history_cache :: "(string \<times> ref) list"

text \<open>\<open>df.tail(n)\<close> for a non-negative \<open>n\<close>.\<close>

definition df_tail :: "nat \<Rightarrow> frame \<Rightarrow> frame" where
  "df_tail n df =
     df\<lparr>rows := drop (length (rows df) - n) (rows df),
        extra := map_option (\<lambda>c. drop (length c - n) c) \<circ> extra df\<rparr>"

text \<open>
  \<open>load_context\<close>: \<open>compile\<close> stands for \<open>StrategyGenerator.compile_strategy\<close> and
  \<open>load_history\<close> for \<open>DataStorage.load_history\<close>, which reads a file into a new frame
  or returns nothing.
\<close>

definition compile_active ::
  "(string \<Rightarrow> strategy_func option) \<Rightarrow> strategy list \<Rightarrow> (string \<times> strategy_func) list" where
  "compile_active compile active =
     fold (\<lambda>s d. case compile (s_code s) of
                    Some func \<Rightarrow> AList.update (s_id s) func d
                  | None \<Rightarrow> d) active []"

fun load_histories ::
  "(string \<Rightarrow> frame option) \<Rightarrow> nat \<Rightarrow> string list \<Rightarrow> store \<Rightarrow> (string \<times> ref) list
     \<Rightarrow> store \<times> (string \<times> ref) list" where
  "load_histories load_history days_lookback [] hp cache = (hp, cache)"
| "load_histories load_history days_lookback (stock # rest) hp cache =
     (case load_history stock of
        None \<Rightarrow> load_histories load_history days_lookback rest hp cache
      | Some df \<Rightarrow>
          if rows df \<noteq> []
          then load_histories load_history days_lookback rest
                 (hp @ [df_tail days_lookback df])
                 (AList.update stock (length hp) cache)
          else load_histories load_history days_lookback rest hp cache)"

definition load_context ::
  "(string \<Rightarrow> strategy_func option) \<Rightarrow> (string \<Rightarrow> frame option) \<Rightarrow> nat
     \<Rightarrow> monitor \<Rightarrow> store \<Rightarrow> monitor \<times> store" where
  "load_context compile load_history days_lookback mon hp =
     (let active_strategies = get_active_strategies (strategy_mgr mon);
          compiled = compile_active compile active_strategies;
          (hp', cache) = load_histories load_history days_lookback (stock_list mon) hp []
      in (mon\<lparr>compiled_strategies := compiled, history_cache := cache\<rparr>, hp'))"

text \<open>
  Lines 97 to 116 of \<open>run_once\<close>: build the frame to evaluate from the cached frame and
  the snapshot. \<open>hist_df['date']\<close> raises KeyError on a frame without that column, and
  \<open>.iloc[-1]\<close> raises IndexError on a frame without rows; none of this is inside a
  \<open>try\<close>. When a write of the refresh raises, the copy it was made to is lost with it.
\<close>

definition merge_window :: "store \<Rightarrow> ref \<Rightarrow> bar \<Rightarrow> pyexn + (store \<times> ref)" where
  "merge_window hp hist_df snapshot =
     (if ''date'' \<notin> set (columns (hp ! hist_df)) then Inl (PyExn ''KeyError: date'')
      else if rows (hp ! hist_df) = []
      then Inl (PyExn ''single positional indexer is out-of-bounds'')
      else let snapshot_date = b_date snapshot;
               last_hist_date = b_date (last (rows (hp ! hist_df)))
           in if snapshot_date > last_hist_date
              then Inr (df_concat_row hp hist_df snapshot)
              else if snapshot_date = last_hist_date
              then (case df_copy hp hist_df of
                      (hp1, eval_df) \<Rightarrow>
                        (case set_last_cols hp1 eval_df [Open, High, Low, Close, Volume]
                                snapshot of
                           Inl e \<Rightarrow> Inl e
                         | Inr hp2 \<Rightarrow> Inr (hp2, eval_df)))
              else Inr (df_copy hp hist_df))"

text \<open>
  The body of the loop over the compiled strategies, with its \<open>try\<close>: the alerts that one
  (stock, strategy) pair appends. A missing strategy record makes \<open>strategy_info['name']\<close>
  raise TypeError, which the same \<open>except\<close> catches. \<open>now\<close> is the clock reading.
\<close>

definition check_strategy ::
  "manager \<Rightarrow> string \<Rightarrow> bar \<Rightarrow> string \<Rightarrow> frame \<Rightarrow> string \<times> strategy_func \<Rightarrow> alert list" where
  "check_strategy mgr stock_code snapshot now eval_df p =
     (case p of (sid, strategy_func) \<Rightarrow>
        (case strategy_func eval_df of
           Raises e \<Rightarrow> []
         | Scalar v \<Rightarrow> []
         | Series signals \<Rightarrow>
             if signals \<noteq> [] then
               (if last signals = Some 1 then
                  (case get_strategy sid mgr of
                     None \<Rightarrow> []
                   | Some strategy_info \<Rightarrow>
                       [\<lparr>a_stock = stock_code, a_price = b_close snapshot,
                         a_strategy = s_name strategy_info, a_signal = ''BUY'',
                         a_time = now\<rparr>])
                else [])
             else []))"

definition run_strategies ::
  "manager \<Rightarrow> (string \<times> strategy_func) list \<Rightarrow> string \<Rightarrow> bar \<Rightarrow> string \<Rightarrow> frame \<Rightarrow> alert list" where
  "run_strategies mgr compiled stock_code snapshot now eval_df =
     concat (map (check_strategy mgr stock_code snapshot now eval_df) compiled)"

text \<open>The loop over the snapshot dict; an exception of the merge escapes the loop.\<close>

fun scan_stocks ::
  "manager \<Rightarrow> (string \<times> strategy_func) list \<Rightarrow> (string \<times> ref) list \<Rightarrow> string
     \<Rightarrow> (string \<times> bar) list \<Rightarrow> store \<Rightarrow> alert list \<Rightarrow> store \<times> alert list outcome" where
  "scan_stocks mgr compiled cache now [] hp alerts = (hp, Returned alerts)"
| "scan_stocks mgr compiled cache now ((stock_code, snapshot) # rest) hp alerts =
     (case map_of cache stock_code of
        None \<Rightarrow> scan_stocks mgr compiled cache now rest hp alerts
      | Some hist_df \<Rightarrow>
          (case merge_window hp hist_df snapshot of
             Inl e \<Rightarrow> (hp, Raised e)
           | Inr (hp1, eval_df) \<Rightarrow>
               scan_stocks mgr compiled cache now rest hp1
                 (alerts @ run_strategies mgr compiled stock_code snapshot now (hp1 ! eval_df))))"

text \<open>
  The result of one tick: the alerts collected and the calls made to \<open>_send_alerts\<close>,
  each with its argument.
\<close>

record tick =
  alerts :: "alert list"
  dispatched :: "alert list list"

text \<open>
  \<open>run_once\<close>; \<open>realtime_data\<close> is what \<open>_fetch_realtime_snapshot\<close> returned for the
  cached stock codes.
\<close>

definition run_once ::
  "monitor \<Rightarrow> (string \<times> bar) list \<Rightarrow> string \<Rightarrow> store \<Rightarrow> store \<times> tick outcome" where
  "run_once mon realtime_data now hp =
     (if compiled_strategies mon = [] then (hp, Returned \<lparr>alerts = [], dispatched = []\<rparr>)
      else if history_cache mon = [] then (hp, Returned \<lparr>alerts = [], dispatched = []\<rparr>)
      else case scan_stocks (strategy_mgr mon) (compiled_strategies mon) (history_cache mon)
                  now realtime_data hp [] of
             (hp', Raised e) \<Rightarrow> (hp', Raised e)
           | (hp', Returned al) \<Rightarrow>
               (hp', Returned \<lparr>alerts = al, dispatched = (if al \<noteq> [] then [al] else [])\<rparr>))"

text \<open>The rows of the frame that the merge builds, as a function of the cached rows.\<close>

definition merged_rows :: "bar list \<Rightarrow> bar \<Rightarrow> bar list" where
  "merged_rows w snapshot =
     (if b_date snapshot > b_date (last w) then w @ [snapshot]
      else if b_date snapshot = b_date (last w)
      then butlast w @ [(last w)\<lparr>b_open := b_open snapshot, b_high := b_high snapshot,
                                 b_low := b_low snapshot, b_close := b_close snapshot,
                                 b_volume := b_volume snapshot\<rparr>]
      else w)"

definition merged_frame :: "frame \<Rightarrow> bar \<Rightarrow> frame" where
  "merged_frame df snapshot =
     (if b_date snapshot > b_date (last (rows df))
      then \<lparr>columns = columns df @ filter (\<lambda>k. k \<notin> set (columns df)) bar_keys,
            int_cols = [],
            rows = merged_rows (rows df) snapshot,
            extra = map_option (\<lambda>c. c @ [None]) \<circ> extra df\<rparr>
      else df\<lparr>rows := merged_rows (rows df) snapshot\<rparr>)"

text \<open>
  A window of bars: a frame that has the six columns of a bar and at least one row. Its
  refresh from a snapshot goes through when none of the five writes is lossy; that is so
  for every snapshot when the five columns hold floats.
\<close>

definition bar_window :: "frame \<Rightarrow> bool" where
  "bar_window df = (list_all (\<lambda>k. k \<in> set (columns df)) bar_keys \<and> rows df \<noteq> [])"

definition refresh_ok :: "frame \<Rightarrow> bar \<Rightarrow> bool" where
  "refresh_ok df snapshot =
     list_all (\<lambda>col. \<not> lossy_write df col snapshot) [Open, High, Low, Close, Volume]"

definition float_prices :: "frame \<Rightarrow> bool" where
  "float_prices df =
     list_all (\<lambda>col. col_name col \<notin> set (int_cols df)) [Open, High, Low, Close, Volume]"

text \<open>
  The state in which ticks run: every cached reference points into the store, at a window
  of bars with float prices, and every compiled id has a record in the manager.
  \<open>load_context\<close> with a positive lookback establishes it when the history files are
  such frames.
\<close>

definition cache_ok :: "store \<Rightarrow> (string \<times> ref) list \<Rightarrow> bool" where
  "cache_ok hp cache =
     list_all (\<lambda>(k, r). r < length hp \<and> bar_window (hp ! r) \<and> float_prices (hp ! r)) cache"

definition compiled_ok :: "manager \<Rightarrow> (string \<times> strategy_func) list \<Rightarrow> bool" where
  "compiled_ok mgr compiled = list_all (\<lambda>(sid, f). get_strategy sid mgr \<noteq> None) compiled"







section \<open>Vectorised backtester (backtester.py)\<close>

text \<open>
  Column operations of pandas on lists, \<open>None\<close> standing for NaN. Floats are modelled by
  reals: a division by zero, which gives an infinity or NaN in the code, has no
  counterpart here, and the statements below that depend on a quotient assume its
  divisor is not zero.
\<close>

definition fillna :: "real \<Rightarrow> real option list \<Rightarrow> real list" where
  "fillna v xs = map (\<lambda>x. case x of None \<Rightarrow> v | Some y \<Rightarrow> y) xs"

definition shift1 :: "real option list \<Rightarrow> real option list" where
  "shift1 xs = (if xs = [] then [] else None # butlast xs)"

fun pct_change :: "real list \<Rightarrow> real option list" where
  "pct_change [] = []"
| "pct_change (x # xs) = None # map (\<lambda>(p, q). Some (q / p - 1)) (zip (x # xs) xs)"

fun diff :: "real list \<Rightarrow> real option list" where
  "diff [] = []"
| "diff (x # xs) = None # map (\<lambda>(p, q). Some (q - p)) (zip (x # xs) xs)"

fun cumprod_from :: "real \<Rightarrow> real list \<Rightarrow> real list" where
  "cumprod_from acc [] = []"
| "cumprod_from acc (x # xs) = (acc * x) # cumprod_from (acc * x) xs"

definition cumprod :: "real list \<Rightarrow> real list" where
  "cumprod xs = cumprod_from 1 xs"

text \<open>\<open>expanding().max()\<close>: the running maximum.\<close>

fun cummax_from :: "real \<Rightarrow> real list \<Rightarrow> real list" where
  "cummax_from m [] = []"
| "cummax_from m (x # xs) = max m x # cummax_from (max m x) xs"

fun expanding_max :: "real list \<Rightarrow> real list" where
  "expanding_max [] = []"
| "expanding_max (x # xs) = x # cummax_from x xs"

text \<open>\<open>Series.min()\<close> of a column without NaN and with at least one row.\<close>

fun series_min :: "real list \<Rightarrow> real" where
  "series_min [] = 0"
| "series_min (x # xs) = fold min xs x"

text \<open>\<open>Series.std()\<close>, the sample standard deviation: NaN below two rows.\<close>

definition series_std :: "real list \<Rightarrow> real option" where
  "series_std xs =
     (if length xs < 2 then None
      else let mean = sum_list xs / real (length xs)
           in Some (sqrt (sum_list (map (\<lambda>x. (x - mean)\<^sup>2) xs) / real (length xs - 1))))"

text \<open>
  The right-hand side of \<open>data['signal'] = strategy_func(data)\<close> for a frame of \<open>n\<close> rows:
  a Series is aligned on the row index, cut or padded with NaN; a scalar fills the
  column; an exception of the strategy goes on to the \<open>except\<close>.
\<close>

definition assign_signal :: "nat \<Rightarrow> strat_out \<Rightarrow> pyexn + real option list" where
  "assign_signal n out =
     (case out of
        Raises e \<Rightarrow> Inl e
      | Scalar v \<Rightarrow> Inr (replicate n v)
      | Series s \<Rightarrow> Inr (take n (s @ replicate (n - length s) None)))"

text \<open>The columns of steps 2 to 5 of \<open>run\<close>, each from the columns it is computed from.\<close>

definition position_col :: "real option list \<Rightarrow> real list" where
  "position_col signal = fillna 0 (shift1 signal)"

definition market_ret_col :: "real list \<Rightarrow> real list" where
  "market_ret_col closes = fillna 0 (pct_change closes)"

definition strategy_ret_col :: "real list \<Rightarrow> real list \<Rightarrow> real list" where
  "strategy_ret_col position market_ret = map (\<lambda>(p, m). p * m) (zip position market_ret)"

definition trade_occurred_col :: "real list \<Rightarrow> real list" where
  "trade_occurred_col position = fillna 0 (map (map_option abs) (diff position))"

definition cost_col :: "real list \<Rightarrow> real \<Rightarrow> real list" where
  "cost_col trade_occurred commission = map (\<lambda>t. t * commission) trade_occurred"

definition net_strategy_ret_col :: "real list \<Rightarrow> real list \<Rightarrow> real list" where
  "net_strategy_ret_col strategy_ret cost = map (\<lambda>(s, c). s - c) (zip strategy_ret cost)"

definition equity_curve_col :: "real list \<Rightarrow> real \<Rightarrow> real list" where
  "equity_curve_col net initial_capital =
     map (\<lambda>p. p * initial_capital) (cumprod (map (\<lambda>r. 1 + r) net))"

text \<open>
  The statistics, as numbers: the code formats all but \<open>total_return\<close> into strings,
  which is left out. Volatility is NaN (\<open>None\<close>) on a single row.
\<close>

record metrics =
  total_return :: real
  annual_return :: real
  sharpe_ratio :: real
  max_drawdown :: real
  volatility :: "real option"
  win_rate :: real

text \<open>
  \<open>_calculate_metrics\<close>, from the columns it reads. \<open>equity.iloc[-1]\<close> raises IndexError
  on a frame without rows.
\<close>

definition calculate_metrics ::
  "real list \<Rightarrow> real list \<Rightarrow> real list \<Rightarrow> real \<Rightarrow> pyexn + metrics" where
  "calculate_metrics equity net position initial_capital =
     (if equity = [] then Inl (PyExn ''single positional indexer is out-of-bounds'')
      else
        let total_ret = (last equity - initial_capital) / initial_capital;
            days = length equity;
            annual_ret = (if days > 0 then (1 + total_ret) powr (252 / real days) - 1 else 0);
            vol = map_option (\<lambda>s. s * sqrt 252) (series_std net);
            risk_free_rate = 3 / 100;
            sharpe = (case vol of
                        Some v \<Rightarrow> if v > 0 then (annual_ret - risk_free_rate) / v else 0
                      | None \<Rightarrow> 0);
            rolling_max = expanding_max equity;
            drawdown = map (\<lambda>(e, m). (e - m) / m) (zip equity rolling_max);
            max_dd = series_min drawdown;
            holding_days = filter (\<lambda>(p, r). p \<noteq> 0) (zip position net);
            win = (if length holding_days > 0
                   then real (length (filter (\<lambda>(p, r). r > 0) holding_days))
                          / real (length holding_days)
                   else 0)
        in Inr \<lparr>total_return = total_ret, annual_return = annual_ret, sharpe_ratio = sharpe,
                max_drawdown = max_dd, volatility = vol, win_rate = win\<rparr>)"

text \<open>
  \<open>data[name] = col\<close>: an in-place write of one column to the object; the column
  written here holds floats.
\<close>

definition set_column :: "store \<Rightarrow> ref \<Rightarrow> string \<Rightarrow> real option list \<Rightarrow> store" where
  "set_column hp df name col =
     hp[df := (hp ! df)\<lparr>columns := (if name \<in> set (columns (hp ! df)) then columns (hp ! df)
                                      else columns (hp ! df) @ [name]),
                        int_cols := removeAll name (int_cols (hp ! df)),
                        extra := (extra (hp ! df))(name \<mapsto> col)\<rparr>]"

text \<open>What \<open>run\<close> returns: \<open>{}\<close>, \<open>{"error": msg}\<close>, or the statistics with the frame.\<close>

datatype bt_result = Empty_dict | Error_dict string | Result_dict metrics ref

definition required_cols :: "string list" where
  "required_cols = [''open'', ''close'', ''high'', ''low'']"

text \<open>
  The body of the \<open>try\<close> in \<open>run\<close>, on the frame \<open>data\<close>. Each column is written to the
  frame as it is computed; a column read back from the frame is the one just written.
\<close>

definition run_body ::
  "strategy_func \<Rightarrow> store \<Rightarrow> ref \<Rightarrow> real \<Rightarrow> real \<Rightarrow> store \<times> (pyexn + metrics)" where
  "run_body strategy_func hp data initial_capital commission =
     (case assign_signal (length (rows (hp ! data))) (strategy_func (hp ! data)) of
        Inl e \<Rightarrow> (hp, Inl e)
      | Inr signal \<Rightarrow>
          let hp1 = set_column hp data ''signal'' signal;
              position = position_col signal;
              hp2 = set_column hp1 data ''position'' (map Some position);
              market_ret = market_ret_col (map b_close (rows (hp2 ! data)));
              hp3 = set_column hp2 data ''market_ret'' (map Some market_ret);
              strategy_ret = strategy_ret_col position market_ret;
              hp4 = set_column hp3 data ''strategy_ret'' (map Some strategy_ret);
              trade_occurred = trade_occurred_col position;
              hp5 = set_column hp4 data ''trade_occurred'' (map Some trade_occurred);
              cost = cost_col trade_occurred commission;
              hp6 = set_column hp5 data ''cost'' (map Some cost);
              net = net_strategy_ret_col strategy_ret cost;
              hp7 = set_column hp6 data ''net_strategy_ret'' (map Some net);
              equity = equity_curve_col net initial_capital;
              hp8 = set_column hp7 data ''equity_curve'' (map Some equity)
          in (hp8, calculate_metrics equity net position initial_capital))"

text \<open>
  \<open>VectorBacktester.run\<close> on the frame \<open>df\<close> of the caller, with the strategy given to the
  constructor.
\<close>

definition run ::
  "strategy_func \<Rightarrow> store \<Rightarrow> ref \<Rightarrow> real \<Rightarrow> real \<Rightarrow> store \<times> bt_result outcome" where
  "run strategy_func hp df initial_capital commission =
     (case df_copy hp df of
        (hp0, data) \<Rightarrow>
          if \<not> list_all (\<lambda>col. col \<in> set (columns (hp0 ! data))) required_cols
          then (hp0, Returned Empty_dict)
          else (case run_body strategy_func hp0 data initial_capital commission of
                  (hp1, Inl (PyExn msg)) \<Rightarrow> (hp1, Returned (Error_dict msg))
                | (hp1, Inr m) \<Rightarrow> (hp1, Returned (Result_dict m data))))"

text \<open>The statistics of a run, when it returns some.\<close>

definition run_metrics :: "strategy_func \<Rightarrow> store \<Rightarrow> ref \<Rightarrow> real \<Rightarrow> real \<Rightarrow> metrics option" where
  "run_metrics strategy_func hp df initial_capital commission =
     (case snd (run strategy_func hp df initial_capital commission) of
        Returned (Result_dict m data) \<Rightarrow> Some m
      | _ \<Rightarrow> None)"

text \<open>
  The net return and equity columns that \<open>run\<close> computes, as functions of the close
  column, the signal column and the two rates.
\<close>

definition net_of :: "real list \<Rightarrow> real option list \<Rightarrow> real \<Rightarrow> real list" where
  "net_of closes signal commission =
     net_strategy_ret_col
       (strategy_ret_col (position_col signal) (market_ret_col closes))
       (cost_col (trade_occurred_col (position_col signal)) commission)"

definition equity_of :: "real list \<Rightarrow> real option list \<Rightarrow> real \<Rightarrow> real \<Rightarrow> real list" where
  "equity_of closes signal initial_capital commission =
     equity_curve_col (net_of closes signal commission) initial_capital"


section \<open>Concrete inputs\<close>

text \<open>
  A store with no strategies whose file cannot be opened for writing, the same store with
  a file name that has no directory part to create, and a store holding one active
  strategy with id \<open>abcdef12\<close>, with and without a directory that can be created.
\<close>

definition ro_mgr :: manager where
  "ro_mgr = \<lparr>strategies = [], dir_ok = True, io = Open_fails, file_content = Some [],
             err_log = []\<rparr>"

definition nodir_mgr :: manager where
  "nodir_mgr = \<lparr>strategies = [], dir_ok = False, io = Write_ok, file_content = Some [],
                err_log = []\<rparr>"

definition one_mgr :: manager where
  "one_mgr = \<lparr>strategies = [\<lparr>s_id = ''abcdef12'', s_name = ''old'', s_description = ''d0'',
            s_code = ''c0'', s_created_at = ''t0'', s_status = ''active''\<rparr>],
          dir_ok = True, io = Write_ok, file_content = Some [], err_log = []\<rparr>"


text \<open>A two-day history frame, alone in the store, and three snapshots around its last day.\<close>

definition w_frame :: frame where
  "w_frame = \<lparr>columns = bar_keys, int_cols = [],
              rows = [\<lparr>b_date = 1, b_open = 10, b_high = 12, b_low = 9, b_close = 11, b_volume = 100\<rparr>,
                      \<lparr>b_date = 2, b_open = 11, b_high = 13, b_low = 10, b_close = 12, b_volume = 200\<rparr>],
              extra = Map.empty\<rparr>"

definition w_store :: store where
  "w_store = [w_frame]"

definition live_bar :: "int \<Rightarrow> bar" where
  "live_bar d = \<lparr>b_date = d, b_open = 20, b_high = 22, b_low = 19, b_close = 21, b_volume = 300\<rparr>"

text \<open>A strategy that is always long, and one that raises on every frame.\<close>

definition always_long :: strategy_func where
  "always_long df = Series (replicate (length (rows df)) (Some 1))"



definition w_mon :: monitor where
  "w_mon = \<lparr>stock_list = [''600519''], strategy_mgr = one_mgr,
            compiled_strategies = [(''abcdef12'', always_long)],
            history_cache = [(''600519'', 0)]\<rparr>"


definition ex_frame :: frame where
  "ex_frame = \<lparr>columns = bar_keys, int_cols = [],
     rows = map (\<lambda>(d, c). \<lparr>b_date = d, b_open = c, b_high = c, b_low = c, b_close = c, b_volume = 1\<rparr>)
              [(1, 10), (2, 10), (3, 10), (4, 10), (5, 10), (6, 11), (7, 12), (8, 13), (9, 14), (10, 15)],
     extra = Map.empty\<rparr>"

definition ex_strategy :: strategy_func where
  "ex_strategy df = Series (map Some [0, 0, 0, 0, 1, 1, 1, 1, 1, 1])"



text \<open>A frame without the \<open>open\<close> column, and a frame with all columns and no rows.\<close>

definition no_open_frame :: frame where
  "no_open_frame = w_frame\<lparr>columns := [''date'', ''high'', ''low'', ''close'', ''volume'']\<rparr>"

definition empty_frame :: frame where
  "empty_frame = \<lparr>columns = bar_keys, int_cols = [], rows = [], extra = Map.empty\<rparr>"

text \<open>Two rising two-day frames: a gain of 0.01 percent, and a gain of 10 percent.\<close>

definition c6_frame :: frame where
  "c6_frame = \<lparr>columns = bar_keys, int_cols = [],
     rows = [\<lparr>b_date = 1, b_open = 10000, b_high = 10000, b_low = 10000, b_close = 10000, b_volume = 1\<rparr>,
             \<lparr>b_date = 2, b_open = 10001, b_high = 10001, b_low = 10001, b_close = 10001, b_volume = 1\<rparr>],
     extra = Map.empty\<rparr>"

definition rise_frame :: frame where
  "rise_frame = \<lparr>columns = bar_keys, int_cols = [],
     rows = [\<lparr>b_date = 1, b_open = 100, b_high = 100, b_low = 100, b_close = 100, b_volume = 1\<rparr>,
             \<lparr>b_date = 2, b_open = 110, b_high = 110, b_low = 110, b_close = 110, b_volume = 1\<rparr>],
     extra = Map.empty\<rparr>"

section \<open>Properties of the strategy store\<close>

lemma save_strategies_dir_ok:
  "dir_ok m \<Longrightarrow>
   \<exists>m'. save_strategies m = (m', Returned ()) \<and> strategies m' = strategies m
      \<and> dir_ok m' \<and> io m' = io m
      \<and> (io m = Write_ok \<longrightarrow> file_content m' = Some (strategies m) \<and> err_log m' = err_log m)
      \<and> (io m \<noteq> Write_ok \<longrightarrow> length (err_log m') = Suc (length (err_log m)))"
  by (cases "io m") (simp_all add: save_strategies_def write_file_def)

lemma save_strategies_no_dir:
  "\<not> dir_ok m \<Longrightarrow> save_strategies m = (m, Raised (PyExn ''cannot create directory''))"
  by (simp add: save_strategies_def)

lemma save_strategies_Returned:
  "save_strategies m = (m', Returned u) \<Longrightarrow> dir_ok m \<and> strategies m' = strategies m"
  using save_strategies_dir_ok [of m] save_strategies_no_dir [of m] by (cases "dir_ok m") auto

lemma find_append_fresh:
  "\<forall>x \<in> set xs. \<not> P x \<Longrightarrow> find P (xs @ ys) = find P ys"
  by (induction xs) auto

lemma find_filter_neq: "find (\<lambda>s. s_id s = i) (filter (\<lambda>s. s_id s \<noteq> i) xs) = None"
  by (induction xs) auto


lemma set_status_Some:
  "find (\<lambda>s. s_id s = i) ss = Some s \<Longrightarrow>
   \<exists>ss'. set_status i st ss = Some ss' \<and> find (\<lambda>s. s_id s = i) ss' = Some (s\<lparr>s_status := st\<rparr>)
       \<and> s\<lparr>s_status := st\<rparr> \<in> set ss' \<and> length ss' = length ss"
  by (induction ss) auto

lemma filter_shorter:
  "\<exists>s \<in> set xs. s_id s = i \<Longrightarrow> length (filter (\<lambda>s. s_id s \<noteq> i) xs) < length xs"
  by (induction xs) (auto simp: le_imp_less_Suc)

lemma add_strategy_dir_ok:
  assumes "dir_ok m"
  shows "\<exists>m'. add_strategy uuid now name description code m = (m', Returned (take 8 uuid))
      \<and> strategies m' = strategies m @ [\<lparr>s_id = take 8 uuid, s_name = name,
             s_description = description, s_code = code, s_created_at = now,
             s_status = ''active''\<rparr>]
      \<and> (io m \<noteq> Write_ok \<longrightarrow> length (err_log m') = Suc (length (err_log m)))"
proof -
  let ?ma = "m\<lparr>strategies := strategies m @ [\<lparr>s_id = take 8 uuid, s_name = name,
             s_description = description, s_code = code, s_created_at = now,
             s_status = ''active''\<rparr>]\<rparr>"
  have "dir_ok ?ma" using assms by simp
  from save_strategies_dir_ok [OF this]
  obtain m' where "save_strategies ?ma = (m', Returned ())" "strategies m' = strategies ?ma"
    "io ?ma \<noteq> Write_ok \<longrightarrow> length (err_log m') = Suc (length (err_log ?ma))"
    by blast
  then show ?thesis by (simp add: add_strategy_def Let_def)
qed

lemma add_strategy_Returned:
  assumes "add_strategy uuid now name description code m = (m1, Returned i)"
  shows "dir_ok m \<and> i = take 8 uuid
      \<and> strategies m1 = strategies m @ [\<lparr>s_id = take 8 uuid, s_name = name,
             s_description = description, s_code = code, s_created_at = now,
             s_status = ''active''\<rparr>]"
proof (cases "dir_ok m")
  case True
  from add_strategy_dir_ok [OF True, of uuid now name description code] assms
  show ?thesis using True by auto
next
  case False
  then show ?thesis using assms
    by (simp add: add_strategy_def Let_def save_strategies_no_dir)
qed

text \<open>
  C7 (as amended). When the directory of the strategy file can be created, no failure of
  the write reaches the caller: a failure to open or to write the file is caught inside
  \<open>_save_strategies\<close>, which logs one message and returns, so \<open>add_strategy\<close> still
  returns the new id and \<open>delete_strategy\<close> and \<open>toggle_strategy\<close> still return their
  boolean. Only a failure to create the directory, which happens before the \<open>try\<close>,
  reaches the caller: then \<open>add_strategy\<close> raises, and so do \<open>delete_strategy\<close> and
  \<open>toggle_strategy\<close> on an id that is stored.
\<close>

theorem write_failure_not_propagated:
  "(dir_ok m \<longrightarrow>
      (\<exists>m'. save_strategies m = (m', Returned ())
            \<and> (io m \<noteq> Write_ok \<longrightarrow> length (err_log m') = Suc (length (err_log m))))
    \<and> (\<exists>m'. add_strategy uuid now name description code m = (m', Returned (take 8 uuid))
            \<and> (io m \<noteq> Write_ok \<longrightarrow> length (err_log m') = Suc (length (err_log m))))
    \<and> (\<exists>m' b. delete_strategy strategy_id m = (m', Returned b))
    \<and> (\<exists>m' b. toggle_strategy strategy_id new_status m = (m', Returned b)))
   \<and> (\<not> dir_ok m \<longrightarrow>
      (\<exists>m' e. add_strategy uuid now name description code m = (m', Raised e))
    \<and> ((\<exists>s \<in> set (strategies m). s_id s = strategy_id) \<longrightarrow>
          (\<exists>m' e. delete_strategy strategy_id m = (m', Raised e))
        \<and> (\<exists>m' e. toggle_strategy strategy_id new_status m = (m', Raised e))))"
proof -
  have A: "dir_ok m \<longrightarrow>
      (\<exists>m'. save_strategies m = (m', Returned ())
            \<and> (io m \<noteq> Write_ok \<longrightarrow> length (err_log m') = Suc (length (err_log m))))
    \<and> (\<exists>m'. add_strategy uuid now name description code m = (m', Returned (take 8 uuid))
            \<and> (io m \<noteq> Write_ok \<longrightarrow> length (err_log m') = Suc (length (err_log m))))
    \<and> (\<exists>m' b. delete_strategy strategy_id m = (m', Returned b))
    \<and> (\<exists>m' b. toggle_strategy strategy_id new_status m = (m', Returned b))"
  proof (rule impI)
    assume a: "dir_ok m"
    have sv: "\<exists>m'. save_strategies m = (m', Returned ())
            \<and> (io m \<noteq> Write_ok \<longrightarrow> length (err_log m') = Suc (length (err_log m)))"
      using save_strategies_dir_ok [OF a] by blast
    have add: "\<exists>m'. add_strategy uuid now name description code m = (m', Returned (take 8 uuid))
            \<and> (io m \<noteq> Write_ok \<longrightarrow> length (err_log m') = Suc (length (err_log m)))"
      using add_strategy_dir_ok [OF a, of uuid now name description code] by blast
    have del: "\<exists>m' b. delete_strategy strategy_id m = (m', Returned b)"
    proof (cases "length (filter (\<lambda>s. s_id s \<noteq> strategy_id) (strategies m)) < length (strategies m)")
      case True
      let ?md = "m\<lparr>strategies := filter (\<lambda>s. s_id s \<noteq> strategy_id) (strategies m)\<rparr>"
      have "dir_ok ?md" using a by simp
      from save_strategies_dir_ok [OF this]
      obtain m' where "save_strategies ?md = (m', Returned ())" by blast
      then show ?thesis using True by (auto simp: delete_strategy_def Let_def)
    next
      case False
      then show ?thesis by (auto simp: delete_strategy_def Let_def)
    qed
    have tog: "\<exists>m' b. toggle_strategy strategy_id new_status m = (m', Returned b)"
    proof (cases "set_status strategy_id new_status (strategies m)")
      case None
      then show ?thesis by (auto simp: toggle_strategy_def)
    next
      case (Some ss)
      have "dir_ok (m\<lparr>strategies := ss\<rparr>)" using a by simp
      from save_strategies_dir_ok [OF this]
      obtain m' where "save_strategies (m\<lparr>strategies := ss\<rparr>) = (m', Returned ())" by blast
      then show ?thesis using Some by (auto simp: toggle_strategy_def)
    qed
    show "(\<exists>m'. save_strategies m = (m', Returned ())
            \<and> (io m \<noteq> Write_ok \<longrightarrow> length (err_log m') = Suc (length (err_log m))))
      \<and> (\<exists>m'. add_strategy uuid now name description code m = (m', Returned (take 8 uuid))
            \<and> (io m \<noteq> Write_ok \<longrightarrow> length (err_log m') = Suc (length (err_log m))))
      \<and> (\<exists>m' b. delete_strategy strategy_id m = (m', Returned b))
      \<and> (\<exists>m' b. toggle_strategy strategy_id new_status m = (m', Returned b))"
      using sv add del tog by (intro conjI)
  qed
  have B: "\<not> dir_ok m \<longrightarrow>
      (\<exists>m' e. add_strategy uuid now name description code m = (m', Raised e))"
    by (simp add: add_strategy_def Let_def save_strategies_no_dir)
  have C: "\<not> dir_ok m \<and> (\<exists>s \<in> set (strategies m). s_id s = strategy_id) \<longrightarrow>
          (\<exists>m' e. delete_strategy strategy_id m = (m', Raised e))
        \<and> (\<exists>m' e. toggle_strategy strategy_id new_status m = (m', Raised e))"
  proof (rule impI)
    assume ns: "\<not> dir_ok m \<and> (\<exists>s \<in> set (strategies m). s_id s = strategy_id)"
    then have n: "\<not> dir_ok m" and st: "\<exists>s \<in> set (strategies m). s_id s = strategy_id"
      by simp_all
    have del: "\<exists>m' e. delete_strategy strategy_id m = (m', Raised e)"
      using n filter_shorter [OF st]
      by (simp add: delete_strategy_def Let_def save_strategies_no_dir)
    from st have "find (\<lambda>s. s_id s = strategy_id) (strategies m) \<noteq> None"
      by (auto simp: find_None_iff)
    then obtain s where "find (\<lambda>s. s_id s = strategy_id) (strategies m) = Some s" by auto
    from set_status_Some [OF this, of new_status]
    obtain ss where "set_status strategy_id new_status (strategies m) = Some ss" by blast
    then have tog: "\<exists>m' e. toggle_strategy strategy_id new_status m = (m', Raised e)"
      using n by (simp add: toggle_strategy_def save_strategies_no_dir)
    show "(\<exists>m' e. delete_strategy strategy_id m = (m', Raised e))
        \<and> (\<exists>m' e. toggle_strategy strategy_id new_status m = (m', Raised e))"
      using del tog by (intro conjI)
  qed
  show ?thesis using A B C by blast
qed

theorem write_failure_not_propagated_witness:
  "dir_ok ro_mgr \<and> io ro_mgr \<noteq> Write_ok
   \<and> (\<exists>m'. add_strategy ''0a1b2c3d-aaaa'' ''t1'' ''ma'' ''d1'' ''c1'' ro_mgr
              = (m', Returned ''0a1b2c3d'') \<and> length (err_log m') = 1)
   \<and> \<not> dir_ok nodir_mgr
   \<and> (\<exists>m' e. add_strategy ''0a1b2c3d-aaaa'' ''t1'' ''ma'' ''d1'' ''c1'' nodir_mgr
              = (m', Raised e))"
proof -
  have a: "dir_ok ro_mgr \<and> io ro_mgr \<noteq> Write_ok" by (simp add: ro_mgr_def)
  have l: "err_log ro_mgr = []" by (simp add: ro_mgr_def)
  have b: "\<not> dir_ok nodir_mgr" by (simp add: nodir_mgr_def)
  have t: "take 8 ''0a1b2c3d-aaaa'' = ''0a1b2c3d''" by simp
  from write_failure_not_propagated [of ro_mgr "''0a1b2c3d-aaaa''" "''t1''" "''ma''" "''d1''" "''c1''"] a
  have x: "\<exists>m'. add_strategy ''0a1b2c3d-aaaa'' ''t1'' ''ma'' ''d1'' ''c1'' ro_mgr
              = (m', Returned ''0a1b2c3d'') \<and> length (err_log m') = 1"
    unfolding t l by auto
  from write_failure_not_propagated [of nodir_mgr "''0a1b2c3d-aaaa''" "''t1''" "''ma''" "''d1''" "''c1''"] b
  have y: "\<exists>m' e. add_strategy ''0a1b2c3d-aaaa'' ''t1'' ''ma'' ''d1'' ''c1'' nodir_mgr
              = (m', Raised e)"
    by blast
  show ?thesis using a b x y by (intro conjI) simp_all
qed

text \<open>
  C7 as stated fails: on a store whose file cannot be opened for writing, \<open>add_strategy\<close>
  returns the id \<open>0a1b2c3d\<close> to its caller, who sees no failure.
\<close>

theorem write_failure_propagated_counterexample:
  "io ro_mgr = Open_fails
   \<and> snd (add_strategy ''0a1b2c3d-aaaa'' ''t1'' ''ma'' ''d1'' ''c1'' ro_mgr) = Returned ''0a1b2c3d''"
  by (simp add: add_strategy_def save_strategies_def write_file_def ro_mgr_def Let_def)

text \<open>
  C9 (as amended). Whenever \<open>add_strategy\<close> returns an id, which it does unless the
  directory of the store file cannot be created, and that id, the first eight characters
  of the drawn UUID, is not the id of a strategy already stored, \<open>get_strategy\<close> on it
  returns a record with the given name, description and code and status \<open>active\<close>.
  Whenever \<open>delete_strategy\<close> on an id returns true, \<open>get_strategy\<close> on that id returns
  absence afterwards.
\<close>

theorem add_get_delete_roundtrip:
  "(\<forall>m1 i. add_strategy uuid now name description code m = (m1, Returned i)
            \<and> take 8 uuid \<notin> s_id ` set (strategies m) \<longrightarrow>
        i = take 8 uuid
      \<and> (\<exists>r. get_strategy i m1 = Some r \<and> s_name r = name
             \<and> s_description r = description \<and> s_code r = code \<and> s_status r = ''active''))
   \<and> (dir_ok m \<longrightarrow>
        (\<exists>m1. add_strategy uuid now name description code m = (m1, Returned (take 8 uuid))))
   \<and> (\<forall>m2. delete_strategy strategy_id md = (m2, Returned True) \<longrightarrow>
        get_strategy strategy_id m2 = None)"
proof (intro conjI allI impI)
  fix m1 i
  assume a: "add_strategy uuid now name description code m = (m1, Returned i)
            \<and> take 8 uuid \<notin> s_id ` set (strategies m)"
  let ?new = "\<lparr>s_id = take 8 uuid, s_name = name, s_description = description,
                s_code = code, s_created_at = now, s_status = ''active''\<rparr>"
  from add_strategy_Returned [OF conjunct1 [OF a]]
  have i: "i = take 8 uuid" and l: "strategies m1 = strategies m @ [?new]" by simp_all
  have nocoll: "\<forall>x \<in> set (strategies m). \<not> s_id x = take 8 uuid"
    using a by force
  have "find (\<lambda>s. s_id s = take 8 uuid) (strategies m @ [?new]) = Some ?new"
    by (simp add: find_append_fresh [OF nocoll])
  then have "get_strategy i m1 = Some ?new" by (simp add: get_strategy_def l i)
  then show "i = take 8 uuid" 
    and "\<exists>r. get_strategy i m1 = Some r \<and> s_name r = name
             \<and> s_description r = description \<and> s_code r = code \<and> s_status r = ''active''"
    using i by simp_all
next
  assume "dir_ok m"
  from add_strategy_dir_ok [OF this, of uuid now name description code]
  show "\<exists>m1. add_strategy uuid now name description code m = (m1, Returned (take 8 uuid))"
    by blast
next
  fix m2 assume d: "delete_strategy strategy_id md = (m2, Returned True)"
  let ?md = "md\<lparr>strategies := filter (\<lambda>s. s_id s \<noteq> strategy_id) (strategies md)\<rparr>"
  have sh: "length (filter (\<lambda>s. s_id s \<noteq> strategy_id) (strategies md)) < length (strategies md)"
    using d by (auto simp: delete_strategy_def Let_def split: if_splits)
  obtain m' out where sv: "save_strategies ?md = (m', out)" by (cases "save_strategies ?md")
  have "out = Returned ()" and m2: "m2 = m'"
    using d sh sv by (auto simp: delete_strategy_def Let_def split: outcome.splits)
  with sv have "save_strategies ?md = (m2, Returned ())" by simp
  from save_strategies_Returned [OF this]
  have "strategies m2 = filter (\<lambda>s. s_id s \<noteq> strategy_id) (strategies md)" by simp
  then show "get_strategy strategy_id m2 = None"
    by (simp add: get_strategy_def find_filter_neq)
qed

theorem add_get_delete_roundtrip_witness:
  "\<exists>m1. add_strategy ''0a1b2c3d-aaaa'' ''t1'' ''ma'' ''d1'' ''c1'' one_mgr
          = (m1, Returned ''0a1b2c3d'')
     \<and> (\<exists>r. get_strategy ''0a1b2c3d'' m1 = Some r \<and> s_name r = ''ma''
            \<and> s_description r = ''d1'' \<and> s_code r = ''c1'' \<and> s_status r = ''active'')
     \<and> (\<exists>m2. delete_strategy ''0a1b2c3d'' m1 = (m2, Returned True)
            \<and> get_strategy ''0a1b2c3d'' m2 = None)"
proof -
  have t: "take 8 ''0a1b2c3d-aaaa'' = ''0a1b2c3d''" by simp
  have d: "dir_ok one_mgr" by (simp add: one_mgr_def)
  have f: "take 8 ''0a1b2c3d-aaaa'' \<notin> s_id ` set (strategies one_mgr)"
    by (simp add: one_mgr_def)
  note th = add_get_delete_roundtrip [of "''0a1b2c3d-aaaa''" "''t1''" "''ma''" "''d1''" "''c1''" one_mgr]
  from th [of "''0a1b2c3d''"] d
  obtain m1 where a: "add_strategy ''0a1b2c3d-aaaa'' ''t1'' ''ma'' ''d1'' ''c1'' one_mgr
          = (m1, Returned ''0a1b2c3d'')"
    unfolding t by blast
  from th [of "''0a1b2c3d''"] a f
  have g: "\<exists>r. get_strategy ''0a1b2c3d'' m1 = Some r \<and> s_name r = ''ma''
            \<and> s_description r = ''d1'' \<and> s_code r = ''c1'' \<and> s_status r = ''active''"
    by blast
  from add_strategy_Returned [OF a]
  have dm: "dir_ok one_mgr" and l: "\<exists>s \<in> set (strategies m1). s_id s = ''0a1b2c3d''" by simp_all
  have dm1: "dir_ok m1"
    using a by (simp add: add_strategy_def Let_def save_strategies_def write_file_def one_mgr_def)
        (auto)
  let ?md = "m1\<lparr>strategies := filter (\<lambda>s. s_id s \<noteq> ''0a1b2c3d'') (strategies m1)\<rparr>"
  have "dir_ok ?md" using dm1 by simp
  from save_strategies_dir_ok [OF this]
  obtain m2 where "save_strategies ?md = (m2, Returned ())" by blast
  then have del: "delete_strategy ''0a1b2c3d'' m1 = (m2, Returned True)"
    using filter_shorter [OF l] by (simp add: delete_strategy_def Let_def)
  from add_get_delete_roundtrip [of "''0a1b2c3d-aaaa''" "''t1''" "''ma''" "''d1''" "''c1''" one_mgr
      "''0a1b2c3d''" m1] del
  have "get_strategy ''0a1b2c3d'' m2 = None" by blast
  then show ?thesis using a g del by blast
qed

text \<open>
  C9 as stated fails in two ways. When the drawn id collides with a stored one,
  \<open>add_strategy\<close> returns \<open>abcdef12\<close> and \<open>get_strategy\<close> on it returns the older
  record, named \<open>old\<close>, not the record just added under the name \<open>new\<close>. And when the
  directory of the store file cannot be created, \<open>add_strategy\<close> returns no id: it raises.
\<close>

theorem add_get_roundtrip_counterexample:
  "snd (add_strategy ''abcdef12-bbbb'' ''t1'' ''new'' ''d1'' ''c1'' one_mgr) = Returned ''abcdef12''
   \<and> map_option s_name
        (get_strategy ''abcdef12'' (fst (add_strategy ''abcdef12-bbbb'' ''t1'' ''new'' ''d1'' ''c1'' one_mgr)))
      = Some ''old''
   \<and> snd (add_strategy ''abcdef12-bbbb'' ''t1'' ''new'' ''d1'' ''c1'' nodir_mgr)
      = Raised (PyExn ''cannot create directory'')"
  by (simp add: add_strategy_def save_strategies_def write_file_def one_mgr_def nodir_mgr_def
      get_strategy_def Let_def)



section \<open>Properties of the monitor\<close>

lemma lossy_write_rows [simp]:
  "lossy_write (df\<lparr>rows := x\<rparr>) col snapshot = lossy_write df col snapshot"
  by (simp add: lossy_write_def)

lemma df_set_last_new:
  "df_set_last (hp @ [fr]) (length hp) col snapshot =
     (if lossy_write fr col snapshot
      then Inl (PyExn ''TypeError: invalid value for dtype int64'')
      else Inr (hp @ [fr\<lparr>columns := (if col_name col \<in> set (columns fr) then columns fr
                                      else columns fr @ [col_name col]),
                        rows := butlast (rows fr) @ [set_field col snapshot (last (rows fr))]\<rparr>]))"
  by (simp add: df_set_last_def)

lemma set_last_cols_store:
  "set_last_cols (hp @ [fr]) (length hp) cols snapshot = Inr hp2 \<Longrightarrow> \<exists>fr'. hp2 = hp @ [fr']"
proof (induction cols arbitrary: fr)
  case Nil
  then show ?case by auto
next
  case (Cons col cols)
  show ?case
  proof (cases "lossy_write fr col snapshot")
    case True
    then show ?thesis using Cons.prems by (simp add: df_set_last_new)
  next
    case False
    then show ?thesis using Cons.prems Cons.IH by (simp add: df_set_last_new)
  qed
qed

lemma set_last_cols_ok:
  "rows fr \<noteq> [] \<Longrightarrow>
   \<forall>c \<in> set cols. \<not> lossy_write fr c snapshot \<and> col_name c \<in> set (columns fr) \<Longrightarrow>
   set_last_cols (hp @ [fr]) (length hp) cols snapshot =
     Inr (hp @ [fr\<lparr>rows := butlast (rows fr)
                           @ [fold (\<lambda>c b. set_field c snapshot b) cols (last (rows fr))]\<rparr>])"
proof (induction cols arbitrary: fr)
  case Nil
  then show ?case by simp
next
  case (Cons col cols)
  let ?fr1 = "fr\<lparr>rows := butlast (rows fr) @ [set_field col snapshot (last (rows fr))]\<rparr>"
  have step: "df_set_last (hp @ [fr]) (length hp) col snapshot = Inr (hp @ [?fr1])"
    using Cons.prems(2) by (simp add: df_set_last_new)
  have ne: "rows ?fr1 \<noteq> []" by simp
  have ok: "\<forall>c \<in> set cols. \<not> lossy_write ?fr1 c snapshot \<and> col_name c \<in> set (columns ?fr1)"
    using Cons.prems(2) by simp
  show ?case using step Cons.IH [OF ne ok] by simp
qed

lemma merge_window_no_date:
  "''date'' \<notin> set (columns (hp ! r)) \<Longrightarrow>
   merge_window hp r snapshot = Inl (PyExn ''KeyError: date'')"
  by (simp add: merge_window_def)

lemma merge_window_lossy_open:
  "''date'' \<in> set (columns (hp ! r)) \<Longrightarrow> rows (hp ! r) \<noteq> [] \<Longrightarrow>
   b_date snapshot = b_date (last (rows (hp ! r))) \<Longrightarrow> lossy_write (hp ! r) Open snapshot \<Longrightarrow>
   merge_window hp r snapshot = Inl (PyExn ''TypeError: invalid value for dtype int64'')"
  by (simp add: merge_window_def df_copy_def df_set_last_new)

lemma merge_window_eq:
  assumes "bar_window (hp ! r)"
    and "b_date snapshot = b_date (last (rows (hp ! r))) \<longrightarrow> refresh_ok (hp ! r) snapshot"
  shows "merge_window hp r snapshot = Inr (hp @ [merged_frame (hp ! r) snapshot], length hp)"
proof -
  have d: "''date'' \<in> set (columns (hp ! r))" and ne: "rows (hp ! r) \<noteq> []"
    and cols: "\<forall>c \<in> set [Open, High, Low, Close, Volume]. col_name c \<in> set (columns (hp ! r))"
    using assms(1) by (simp_all add: bar_window_def bar_keys_def col_name_def)
  show ?thesis
  proof (cases "b_date snapshot = b_date (last (rows (hp ! r)))")
    case False
    then show ?thesis using d ne
      by (simp add: merge_window_def merged_frame_def merged_rows_def df_concat_row_def
          df_copy_def Let_def)
  next
    case True
    with assms(2) have "refresh_ok (hp ! r) snapshot" by simp
    then have ok: "\<forall>c \<in> set [Open, High, Low, Close, Volume].
        \<not> lossy_write (hp ! r) c snapshot \<and> col_name c \<in> set (columns (hp ! r))"
      using cols by (simp add: refresh_ok_def)
    show ?thesis
      using True d ne set_last_cols_ok [OF ne ok, of hp]
      by (simp add: merge_window_def merged_frame_def merged_rows_def df_copy_def Let_def
          set_field_def)
  qed
qed

lemma merge_window_Inr:
  assumes "merge_window hp r snapshot = Inr (hp', e)"
  shows "\<exists>fr. hp' = hp @ [fr] \<and> e = length hp"
proof -
  have d: "''date'' \<in> set (columns (hp ! r))" and ne: "rows (hp ! r) \<noteq> []"
    using assms by (auto simp: merge_window_def split: if_splits)
  show ?thesis
  proof (cases "b_date snapshot = b_date (last (rows (hp ! r)))")
    case False
    then show ?thesis using assms d ne
      by (auto simp: merge_window_def df_concat_row_def df_copy_def Let_def split: if_splits)
  next
    case True
    then obtain hp2 where s: "set_last_cols (hp @ [hp ! r]) (length hp)
        [Open, High, Low, Close, Volume] snapshot = Inr hp2" and h: "hp' = hp2" "e = length hp"
      using assms d ne
      by (auto simp: merge_window_def df_copy_def Let_def split: sum.splits)
    from set_last_cols_store [OF s] h show ?thesis by blast
  qed
qed


lemma cache_ok_append: "cache_ok hp cache \<Longrightarrow> cache_ok (hp @ ext) cache"
  by (induction cache) (auto simp: cache_ok_def nth_append)









text \<open>
  \<open>load_context\<close> with a positive lookback, on history files that are frames of bars with
  float prices, leaves the monitor in the state assumed below.
\<close>

lemma update_member:
  "(k', r) \<in> set (AList.update k v al) \<Longrightarrow> (k', r) = (k, v) \<or> (k', r) \<in> set al"
  by (induction al) (auto split: if_splits)

lemma compile_fold_keys:
  "(sid, f) \<in> set (fold (\<lambda>s d. case compile (s_code s) of
                                   Some func \<Rightarrow> AList.update (s_id s) func d
                                 | None \<Rightarrow> d) active d0) \<Longrightarrow>
   (sid, f) \<in> set d0 \<or> sid \<in> s_id ` set active"
proof (induction active arbitrary: d0)
  case Nil
  then show ?case by simp
next
  case (Cons s active)
  show ?case
  proof (cases "compile (s_code s)")
    case None
    then show ?thesis using Cons.IH [of d0] Cons.prems by auto
  next
    case (Some func)
    from Cons.IH [of "AList.update (s_id s) func d0"] Cons.prems Some
    have "(sid, f) \<in> set (AList.update (s_id s) func d0) \<or> sid \<in> s_id ` set active" by simp
    then show ?thesis using update_member [of sid f "s_id s" func d0] by auto
  qed
qed

lemma compile_active_ok: "compiled_ok mgr (compile_active compile (get_active_strategies mgr))"
proof -
  have "get_strategy sid mgr \<noteq> None"
    if "(sid, f) \<in> set (compile_active compile (get_active_strategies mgr))" for sid f
  proof -
    from compile_fold_keys [OF that [unfolded compile_active_def]]
    obtain s where "s \<in> set (get_active_strategies mgr)" and "s_id s = sid" by auto
    then have "s \<in> set (strategies mgr)" by (simp add: get_active_strategies_def)
    then show ?thesis using \<open>s_id s = sid\<close> by (auto simp: get_strategy_def find_None_iff)
  qed
  then show ?thesis by (auto simp: compiled_ok_def list_all_iff)
qed

lemma df_tail_window:
  "0 < n \<Longrightarrow> rows df \<noteq> [] \<Longrightarrow> list_all (\<lambda>k. k \<in> set (columns df)) bar_keys \<Longrightarrow>
   float_prices df \<Longrightarrow> bar_window (df_tail n df) \<and> float_prices (df_tail n df)"
  by (cases "rows df") (auto simp: df_tail_def bar_window_def float_prices_def)

lemma load_histories_ok:
  assumes "0 < n"
    and "\<forall>s df. load_history s = Some df \<longrightarrow>
           list_all (\<lambda>k. k \<in> set (columns df)) bar_keys \<and> float_prices df"
  shows "cache_ok hp cache \<Longrightarrow>
   load_histories load_history n stocks hp cache = (hp', cache') \<Longrightarrow> cache_ok hp' cache'"
proof (induction stocks arbitrary: hp cache)
  case Nil
  then show ?case by simp
next
  case (Cons stock rest)
  show ?case
  proof (cases "load_history stock")
    case None
    then show ?thesis using Cons by simp
  next
    case (Some df)
    show ?thesis
    proof (cases "rows df = []")
      case True
      then show ?thesis using Cons Some by simp
    next
      case False
      let ?hp = "hp @ [df_tail n df]"
      let ?cache = "AList.update stock (length hp) cache"
      have w: "bar_window (df_tail n df) \<and> float_prices (df_tail n df)"
        using df_tail_window [OF assms(1) False] assms(2) Some by blast
      have "cache_ok ?hp ?cache"
        using cache_ok_append [OF Cons.prems(1), of "[df_tail n df]"] w
        by (auto simp: cache_ok_def list_all_iff nth_append dest!: update_member)
      moreover have "load_histories load_history n rest ?hp ?cache = (hp', cache')"
        using Cons.prems(2) Some False by simp
      ultimately show ?thesis using Cons.IH by blast
    qed
  qed
qed

lemma load_context_ok:
  assumes "0 < days_lookback"
    and "\<forall>s df. load_history s = Some df \<longrightarrow>
           list_all (\<lambda>k. k \<in> set (columns df)) bar_keys \<and> float_prices df"
    and "load_context compile load_history days_lookback mon hp = (mon', hp')"
  shows "cache_ok hp' (history_cache mon')
       \<and> compiled_ok (strategy_mgr mon') (compiled_strategies mon')"
proof -
  obtain h c where l: "load_histories load_history days_lookback (stock_list mon) hp [] = (h, c)"
    by (cases "load_histories load_history days_lookback (stock_list mon) hp []")
  have e: "cache_ok hp []" by (simp add: cache_ok_def)
  from load_histories_ok [OF assms(1) assms(2) e l] have "cache_ok h c" .
  moreover have "mon' = mon\<lparr>compiled_strategies :=
        compile_active compile (get_active_strategies (strategy_mgr mon)), history_cache := c\<rparr>"
    and "hp' = h"
    using assms(3) l by (simp_all add: load_context_def Let_def)
  ultimately show ?thesis using compile_active_ok [of "strategy_mgr mon" compile] by simp
qed








section \<open>Properties of the backtester and of the store\<close>


lemma set_column_last:
  "set_column (hp @ [fr]) (length hp) name col =
     hp @ [fr\<lparr>columns := (if name \<in> set (columns fr) then columns fr else columns fr @ [name]),
              int_cols := removeAll name (int_cols fr),
              extra := (extra fr)(name \<mapsto> col)\<rparr>]"
  by (simp add: set_column_def)

lemma run_body_Inl:
  "assign_signal (length (rows F)) (f F) = Inl e \<Longrightarrow>
   run_body f (hp @ [F]) (length hp) c0 cm = (hp @ [F], Inl e)"
  by (simp add: run_body_def)

lemma run_body_Inr:
  assumes "assign_signal (length (rows F)) (f F) = Inr signal"
  shows "\<exists>fr. run_body f (hp @ [F]) (length hp) c0 cm =
            (hp @ [fr],
             calculate_metrics (equity_of (map b_close (rows F)) signal c0 cm)
               (net_of (map b_close (rows F)) signal cm) (position_col signal) c0)
         \<and> rows fr = rows F
         \<and> extra fr ''signal'' = Some signal
         \<and> extra fr ''position'' = Some (map Some (position_col signal))
         \<and> extra fr ''strategy_ret'' =
             Some (map Some (strategy_ret_col (position_col signal)
                               (market_ret_col (map b_close (rows F)))))"
  using assms
  by (simp add: run_body_def Let_def set_column_last equity_of_def net_of_def
      split del: if_split)

lemma run_missing:
  "\<not> list_all (\<lambda>col. col \<in> set (columns (hp ! df))) required_cols \<Longrightarrow>
   run f hp df c0 cm = (hp @ [hp ! df], Returned Empty_dict)"
  by (simp add: run_def df_copy_def)

lemma run_raises:
  "list_all (\<lambda>col. col \<in> set (columns (hp ! df))) required_cols \<Longrightarrow>
   assign_signal (length (rows (hp ! df))) (f (hp ! df)) = Inl (PyExn msg) \<Longrightarrow>
   run f hp df c0 cm = (hp @ [hp ! df], Returned (Error_dict msg))"
  by (simp add: run_def df_copy_def run_body_Inl)

lemma run_computes:
  assumes "list_all (\<lambda>col. col \<in> set (columns (hp ! df))) required_cols"
    and "assign_signal (length (rows (hp ! df))) (f (hp ! df)) = Inr signal"
  shows "\<exists>fr. run f hp df c0 cm =
            (hp @ [fr],
             Returned (case calculate_metrics (equity_of (map b_close (rows (hp ! df))) signal c0 cm)
                              (net_of (map b_close (rows (hp ! df))) signal cm)
                              (position_col signal) c0 of
                         Inl (PyExn msg) \<Rightarrow> Error_dict msg
                       | Inr m \<Rightarrow> Result_dict m (length hp)))
         \<and> rows fr = rows (hp ! df)
         \<and> extra fr ''signal'' = Some signal
         \<and> extra fr ''position'' = Some (map Some (position_col signal))
         \<and> extra fr ''strategy_ret'' =
             Some (map Some (strategy_ret_col (position_col signal)
                               (market_ret_col (map b_close (rows (hp ! df))))))"
proof -
  from run_body_Inr [where f = f and F = "hp ! df" and hp = hp and ?c0.0 = c0 and cm = cm, OF assms(2)]
  obtain fr where b: "run_body f (hp @ [hp ! df]) (length hp) c0 cm =
            (hp @ [fr],
             calculate_metrics (equity_of (map b_close (rows (hp ! df))) signal c0 cm)
               (net_of (map b_close (rows (hp ! df))) signal cm) (position_col signal) c0)"
    and r: "rows fr = rows (hp ! df)" "extra fr ''signal'' = Some signal"
      "extra fr ''position'' = Some (map Some (position_col signal))"
      "extra fr ''strategy_ret'' =
             Some (map Some (strategy_ret_col (position_col signal)
                               (market_ret_col (map b_close (rows (hp ! df))))))"
    by blast
  have "run f hp df c0 cm =
            (hp @ [fr],
             Returned (case calculate_metrics (equity_of (map b_close (rows (hp ! df))) signal c0 cm)
                              (net_of (map b_close (rows (hp ! df))) signal cm)
                              (position_col signal) c0 of
                         Inl (PyExn msg) \<Rightarrow> Error_dict msg
                       | Inr m \<Rightarrow> Result_dict m (length hp)))"
    using assms(1) b by (simp add: run_def df_copy_def split: sum.splits pyexn.splits)
  then show ?thesis using r by blast
qed

lemma assign_signal_length: "assign_signal n out = Inr signal \<Longrightarrow> length signal = n"
  by (auto simp: assign_signal_def split: strat_out.splits)

lemma run_store: "\<exists>fr. fst (run f hp df c0 cm) = hp @ [fr]"
proof (cases "list_all (\<lambda>col. col \<in> set (columns (hp ! df))) required_cols")
  case False
  then show ?thesis by (simp add: run_missing)
next
  case True
  show ?thesis
  proof (cases "assign_signal (length (rows (hp ! df))) (f (hp ! df))")
    case (Inl e)
    then show ?thesis using True by (cases e) (simp add: run_raises)
  next
    case (Inr signal)
    from run_computes [where f = f and hp = hp and df = df and ?c0.0 = c0 and cm = cm, OF True Inr]
    show ?thesis by auto
  qed
qed


lemma fillna_length [simp]: "length (fillna v xs) = length xs"
  by (simp add: fillna_def)

lemma shift1_length [simp]: "length (shift1 xs) = length xs"
  by (cases xs) (simp_all add: shift1_def)

lemma position_col_length [simp]: "length (position_col signal) = length signal"
  by (simp add: position_col_def)

lemma pct_change_length [simp]: "length (pct_change xs) = length xs"
  by (cases xs) simp_all

lemma diff_length [simp]: "length (diff xs) = length xs"
  by (cases xs) simp_all

lemma market_ret_col_length [simp]: "length (market_ret_col closes) = length closes"
  by (simp add: market_ret_col_def)

lemma cumprod_from_length [simp]: "length (cumprod_from acc xs) = length xs"
  by (induction xs arbitrary: acc) simp_all

lemma net_of_length:
  "length closes = length signal \<Longrightarrow> length (net_of closes signal cm) = length signal"
  by (simp add: net_of_def net_strategy_ret_col_def strategy_ret_col_def cost_col_def
      trade_occurred_col_def)

lemma equity_of_length:
  "length closes = length signal \<Longrightarrow> length (equity_of closes signal c0 cm) = length signal"
  by (simp add: equity_of_def equity_curve_col_def cumprod_def net_of_length)

lemma position_col_0: "signal \<noteq> [] \<Longrightarrow> position_col signal ! 0 = 0"
  by (simp add: position_col_def shift1_def fillna_def)

lemma position_col_lag:
  assumes "0 < t" and "t < length signal"
  shows "position_col signal ! t = (case signal ! (t - 1) of None \<Rightarrow> 0 | Some v \<Rightarrow> v)"
proof -
  from assms obtain k where t: "t = Suc k" by (cases t) auto
  have k: "k < length (butlast signal)" using assms t by simp
  have "position_col signal ! t = fillna 0 (butlast signal) ! k"
    using assms t by (auto simp: position_col_def shift1_def fillna_def)
  also have "\<dots> = (case butlast signal ! k of None \<Rightarrow> 0 | Some v \<Rightarrow> v)"
    using k by (simp add: fillna_def)
  also have "butlast signal ! k = signal ! k" using k by (simp add: nth_butlast)
  finally show ?thesis using t by simp
qed

lemma strategy_ret_col_0:
  "signal \<noteq> [] \<Longrightarrow> closes \<noteq> [] \<Longrightarrow>
   strategy_ret_col (position_col signal) (market_ret_col closes) ! 0 = 0"
  by (cases signal; cases closes)
     (simp_all add: strategy_ret_col_def position_col_def shift1_def fillna_def market_ret_col_def)

lemma calculate_metrics_Inr: "calculate_metrics equity net position c0 = Inr m \<Longrightarrow> equity \<noteq> []"
  by (auto simp: calculate_metrics_def split: if_splits)

lemma calculate_metrics_empty:
  "calculate_metrics [] net position c0 = Inl (PyExn ''single positional indexer is out-of-bounds'')"
  by (simp add: calculate_metrics_def)

lemma run_Result_dict:
  assumes "run f hp df c0 cm = (hp', Returned (Result_dict m data))"
  shows "\<exists>signal fr. assign_signal (length (rows (hp ! df))) (f (hp ! df)) = Inr signal
      \<and> signal \<noteq> [] \<and> length signal = length (rows (hp ! df))
      \<and> hp' = hp @ [fr] \<and> data = length hp \<and> rows fr = rows (hp ! df)
      \<and> extra fr ''signal'' = Some signal
      \<and> extra fr ''position'' = Some (map Some (position_col signal))
      \<and> extra fr ''strategy_ret'' =
             Some (map Some (strategy_ret_col (position_col signal)
                               (market_ret_col (map b_close (rows (hp ! df))))))
      \<and> calculate_metrics (equity_of (map b_close (rows (hp ! df))) signal c0 cm)
            (net_of (map b_close (rows (hp ! df))) signal cm) (position_col signal) c0 = Inr m"
proof (cases "list_all (\<lambda>col. col \<in> set (columns (hp ! df))) required_cols")
  case False
  then show ?thesis using assms by (simp add: run_missing)
next
  case True
  show ?thesis
  proof (cases "assign_signal (length (rows (hp ! df))) (f (hp ! df))")
    case (Inl e)
    then show ?thesis using True assms by (cases e) (simp add: run_raises)
  next
    case (Inr signal)
    from run_computes [where f = f and hp = hp and df = df and ?c0.0 = c0 and cm = cm, OF True Inr]
    obtain fr where r: "run f hp df c0 cm =
            (hp @ [fr],
             Returned (case calculate_metrics (equity_of (map b_close (rows (hp ! df))) signal c0 cm)
                              (net_of (map b_close (rows (hp ! df))) signal cm)
                              (position_col signal) c0 of
                         Inl (PyExn msg) \<Rightarrow> Error_dict msg
                       | Inr m \<Rightarrow> Result_dict m (length hp)))"
      and fr: "rows fr = rows (hp ! df)" "extra fr ''signal'' = Some signal"
        "extra fr ''position'' = Some (map Some (position_col signal))"
        "extra fr ''strategy_ret'' =
             Some (map Some (strategy_ret_col (position_col signal)
                               (market_ret_col (map b_close (rows (hp ! df))))))"
      by blast
    have len: "length signal = length (rows (hp ! df))" by (rule assign_signal_length [OF Inr])
    have cm: "calculate_metrics (equity_of (map b_close (rows (hp ! df))) signal c0 cm)
            (net_of (map b_close (rows (hp ! df))) signal cm) (position_col signal) c0 = Inr m"
      and hp': "hp' = hp @ [fr]" and d: "data = length hp"
      using r assms by (auto split: sum.splits pyexn.splits)
    have "equity_of (map b_close (rows (hp ! df))) signal c0 cm \<noteq> []"
      by (rule calculate_metrics_Inr [OF cm])
    then have ne: "signal \<noteq> []"
      using equity_of_length [of "map b_close (rows (hp ! df))" signal c0 cm] len by auto
    show ?thesis using Inr ne len hp' d fr cm by blast
  qed
qed

text \<open>
  C1. Whenever a backtest returns statistics, the frame it returns holds a signal column,
  namely what the strategy returned on the copy of the input, and a position column that
  is the signal column lagged by one bar: position 0 is 0 and position \<open>t\<close> for \<open>t > 0\<close> is
  the signal at \<open>t - 1\<close>, a NaN signal counting as 0. Position 0 and strategy return 0 are
  0 for every input, so neither depends on the first close.
\<close>

theorem position_lags_signal:
  assumes "run f hp df c0 cm = (hp', Returned (Result_dict m data))"
  shows "\<exists>signal position strategy_ret.
           assign_signal (length (rows (hp ! df))) (f (hp ! df)) = Inr signal
         \<and> extra (hp' ! data) ''signal'' = Some signal
         \<and> extra (hp' ! data) ''position'' = Some position
         \<and> extra (hp' ! data) ''strategy_ret'' = Some strategy_ret
         \<and> signal \<noteq> [] \<and> length signal = length (rows (hp ! df))
         \<and> length position = length signal
         \<and> position ! 0 = Some 0 \<and> strategy_ret ! 0 = Some 0
         \<and> (\<forall>t. 0 < t \<and> t < length signal \<longrightarrow>
               position ! t = Some (case signal ! (t - 1) of None \<Rightarrow> 0 | Some v \<Rightarrow> v))"
proof -
  from run_Result_dict [OF assms]
  obtain signal fr where a: "assign_signal (length (rows (hp ! df))) (f (hp ! df)) = Inr signal"
    and ne: "signal \<noteq> []" and len: "length signal = length (rows (hp ! df))"
    and hp': "hp' = hp @ [fr]" and d: "data = length hp"
    and sg: "extra fr ''signal'' = Some signal"
    and ps: "extra fr ''position'' = Some (map Some (position_col signal))"
    and sr: "extra fr ''strategy_ret'' =
             Some (map Some (strategy_ret_col (position_col signal)
                               (market_ret_col (map b_close (rows (hp ! df))))))"
    by blast
  let ?pos = "map Some (position_col signal)"
  let ?sr = "map Some (strategy_ret_col (position_col signal)
                               (market_ret_col (map b_close (rows (hp ! df)))))"
  have fr: "hp' ! data = fr" using hp' d by simp
  have cl: "map b_close (rows (hp ! df)) \<noteq> []" using ne len by (cases "rows (hp ! df)") auto
  have p0: "?pos ! 0 = Some 0" using ne by (simp add: position_col_0)
  have "0 < length (strategy_ret_col (position_col signal)
                               (market_ret_col (map b_close (rows (hp ! df)))))"
    using ne len by (cases signal; cases "rows (hp ! df)") (simp_all add: strategy_ret_col_def)
  then have s0: "?sr ! 0 = Some 0" using ne cl by (simp add: strategy_ret_col_0)
  have lag: "\<forall>t. 0 < t \<and> t < length signal \<longrightarrow>
               ?pos ! t = Some (case signal ! (t - 1) of None \<Rightarrow> 0 | Some v \<Rightarrow> v)"
    by (simp add: position_col_lag)
  show ?thesis
    using a sg ps sr ne len p0 s0 lag unfolding fr
    by (intro exI [of _ signal] exI [of _ ?pos] exI [of _ ?sr]) simp
qed

text \<open>
  C3. A backtest always returns to its caller, and on a frame that has the columns open,
  close, high and low and no rows it returns a dict with an error message. On a frame
  that lacks one of these columns it returns the bare empty dict: no statistics, but no
  error message either, unlike the other failure path of the same function.
\<close>

theorem run_total:
  "(\<exists>hp' v. run f hp df c0 cm = (hp', Returned v))
   \<and> (\<not> list_all (\<lambda>col. col \<in> set (columns (hp ! df))) required_cols \<longrightarrow>
        snd (run f hp df c0 cm) = Returned Empty_dict)
   \<and> (list_all (\<lambda>col. col \<in> set (columns (hp ! df))) required_cols \<and> rows (hp ! df) = [] \<longrightarrow>
        (\<exists>msg. snd (run f hp df c0 cm) = Returned (Error_dict msg)))"
proof (intro conjI impI)
  show "\<exists>hp' v. run f hp df c0 cm = (hp', Returned v)"
  proof (cases "list_all (\<lambda>col. col \<in> set (columns (hp ! df))) required_cols")
    case False
    then show ?thesis by (simp add: run_missing)
  next
    case True
    show ?thesis
    proof (cases "assign_signal (length (rows (hp ! df))) (f (hp ! df))")
      case (Inl e)
      then show ?thesis using True by (cases e) (simp add: run_raises)
    next
      case (Inr signal)
      from run_computes [where f = f and hp = hp and df = df and ?c0.0 = c0 and cm = cm, OF True Inr]
      show ?thesis by blast
    qed
  qed
next
  assume "\<not> list_all (\<lambda>col. col \<in> set (columns (hp ! df))) required_cols"
  then show "snd (run f hp df c0 cm) = Returned Empty_dict" by (simp add: run_missing)
next
  assume a: "list_all (\<lambda>col. col \<in> set (columns (hp ! df))) required_cols \<and> rows (hp ! df) = []"
  show "\<exists>msg. snd (run f hp df c0 cm) = Returned (Error_dict msg)"
  proof (cases "assign_signal (length (rows (hp ! df))) (f (hp ! df))")
    case (Inl e)
    then show ?thesis using a by (cases e) (simp add: run_raises)
  next
    case (Inr signal)
    have "signal = []" using assign_signal_length [OF Inr] a by simp
    then have "length (equity_of (map b_close (rows (hp ! df))) signal c0 cm) = 0"
      using a by (simp add: equity_of_length)
    then have "equity_of (map b_close (rows (hp ! df))) signal c0 cm = []"
      by simp
    then show ?thesis
      using run_computes [where f = f and hp = hp and df = df and ?c0.0 = c0 and cm = cm, OF conjunct1 [OF a] Inr]
      by (auto simp: calculate_metrics_empty)
  qed
qed


lemma calculate_metrics_nonempty:
  "equity \<noteq> [] \<Longrightarrow> \<exists>m. calculate_metrics equity net position c0 = Inr m"
  by (simp add: calculate_metrics_def Let_def)

theorem position_lags_signal_witness:
  "\<exists>hp' m data. run ex_strategy [ex_frame] 0 100000 (3 / 10000) = (hp', Returned (Result_dict m data))
     \<and> (\<exists>position. extra (hp' ! data) ''position'' = Some position
            \<and> position ! 0 = Some 0 \<and> position ! 5 = Some 1)"
proof -
  let ?sig = "map Some [0, 0, 0, 0, 1, 1, 1, 1, 1, 1::real]"
  have cols: "list_all (\<lambda>col. col \<in> set (columns ([ex_frame] ! 0))) required_cols"
    by (simp add: ex_frame_def bar_keys_def required_cols_def)
  have n: "length (rows ([ex_frame] ! 0)) = 10" by (simp add: ex_frame_def)
  have sg: "assign_signal (length (rows ([ex_frame] ! 0))) (ex_strategy ([ex_frame] ! 0)) = Inr ?sig"
    unfolding n by (simp add: assign_signal_def ex_strategy_def)
  have "length (equity_of (map b_close (rows ([ex_frame] ! 0))) ?sig 100000 (3 / 10000)) = 10"
    using n by (simp add: equity_of_length)
  then have "equity_of (map b_close (rows ([ex_frame] ! 0))) ?sig 100000 (3 / 10000) \<noteq> []"
    by auto
  from calculate_metrics_nonempty [OF this]
  obtain m where cm: "calculate_metrics
      (equity_of (map b_close (rows ([ex_frame] ! 0))) ?sig 100000 (3 / 10000))
      (net_of (map b_close (rows ([ex_frame] ! 0))) ?sig (3 / 10000))
      (position_col ?sig) 100000 = Inr m"
    by blast
  from run_computes [where f = ex_strategy and hp = "[ex_frame]" and df = 0 and ?c0.0 = 100000
        and cm = "3 / 10000", OF cols sg]
  obtain fr where "run ex_strategy [ex_frame] 0 100000 (3 / 10000) =
      ([ex_frame] @ [fr],
       Returned (case calculate_metrics
                        (equity_of (map b_close (rows ([ex_frame] ! 0))) ?sig 100000 (3 / 10000))
                        (net_of (map b_close (rows ([ex_frame] ! 0))) ?sig (3 / 10000))
                        (position_col ?sig) 100000 of
                   Inl (PyExn msg) \<Rightarrow> Error_dict msg
                 | Inr m \<Rightarrow> Result_dict m (length [ex_frame])))"
    by blast
  then have r: "run ex_strategy [ex_frame] 0 100000 (3 / 10000)
      = ([ex_frame] @ [fr], Returned (Result_dict m (length [ex_frame])))"
    by (simp only: cm sum.case)
  from position_lags_signal [OF r]
  obtain signal position where s: "assign_signal (length (rows ([ex_frame] ! 0)))
        (ex_strategy ([ex_frame] ! 0)) = Inr signal"
    and p: "extra (([ex_frame] @ [fr]) ! length [ex_frame]) ''position'' = Some position"
    and p0: "position ! 0 = Some 0"
    and lag: "\<forall>t. 0 < t \<and> t < length signal \<longrightarrow>
               position ! t = Some (case signal ! (t - 1) of None \<Rightarrow> 0 | Some v \<Rightarrow> v)"
    by blast
  have "signal = ?sig" using s sg by simp
  with lag [rule_format, of 5] have "position ! 5 = Some 1" by simp
  then show ?thesis using r p p0 by blast
qed

theorem run_total_witness:
  "\<not> list_all (\<lambda>col. col \<in> set (columns ([no_open_frame] ! 0))) required_cols
   \<and> snd (run always_long [no_open_frame] 0 100000 (3 / 10000)) = Returned Empty_dict
   \<and> list_all (\<lambda>col. col \<in> set (columns ([empty_frame] ! 0))) required_cols
   \<and> rows ([empty_frame] ! 0) = []
   \<and> (\<exists>msg. snd (run always_long [empty_frame] 0 100000 (3 / 10000)) = Returned (Error_dict msg))"
proof -
  have a: "\<not> list_all (\<lambda>col. col \<in> set (columns ([no_open_frame] ! 0))) required_cols"
    by (simp add: no_open_frame_def required_cols_def)
  have b: "list_all (\<lambda>col. col \<in> set (columns ([empty_frame] ! 0))) required_cols"
    "rows ([empty_frame] ! 0) = []"
    by (simp_all add: empty_frame_def required_cols_def bar_keys_def)
  show ?thesis
    using run_total [of always_long "[no_open_frame]" 0 100000 "3 / 10000"]
      run_total [of always_long "[empty_frame]" 0 100000 "3 / 10000"] a b
    by blast
qed

lemma scan_stocks_store:
  "\<exists>ext. fst (scan_stocks mgr compiled cache now items hp acc) = hp @ ext"
proof (induction items arbitrary: hp acc)
  case Nil
  then show ?case by simp
next
  case (Cons it items)
  obtain stock_code snapshot where it: "it = (stock_code, snapshot)" by (cases it)
  show ?case
  proof (cases "map_of cache stock_code")
    case None
    then show ?thesis using Cons it by simp
  next
    case (Some r)
    show ?thesis
    proof (cases "merge_window hp r snapshot")
      case (Inl e)
      then show ?thesis using Some it by simp
    next
      case (Inr pr)
      obtain hp1 e where pr: "pr = (hp1, e)" by (cases pr)
      from merge_window_Inr [OF Inr [unfolded pr]] obtain fr where h: "hp1 = hp @ [fr]" by blast
      from Cons [of hp1 "acc @ run_strategies mgr compiled stock_code snapshot now (hp1 ! e)"]
      obtain ext where "fst (scan_stocks mgr compiled cache now items hp1
          (acc @ run_strategies mgr compiled stock_code snapshot now (hp1 ! e))) = hp1 @ ext"
        by blast
      then show ?thesis using Some it Inr pr h by simp
    qed
  qed
qed

lemma run_once_store: "\<exists>ext. fst (run_once mon realtime_data now hp) = hp @ ext"
proof -
  from scan_stocks_store [of "strategy_mgr mon" "compiled_strategies mon" "history_cache mon"
      now realtime_data hp "[]"]
  obtain ext where e: "fst (scan_stocks (strategy_mgr mon) (compiled_strategies mon)
      (history_cache mon) now realtime_data hp []) = hp @ ext" by blast
  show ?thesis
    using e by (auto simp: run_once_def split: prod.splits outcome.splits)
qed

text \<open>
  C8. Neither operation writes to an object that existed before it was called. A backtest
  leaves every frame of the store, the caller's among them, as it was, and the frame it
  returns with the statistics is a new object. A monitoring tick leaves every frame of the
  store, the cached windows among them, as it was (and it has no assignment to the cache
  dict); the frame that a merge hands to the strategies is a new object in all three cases.
\<close>

theorem inputs_not_mutated:
  "(\<forall>r < length hp. fst (run f hp df c0 cm) ! r = hp ! r)
   \<and> (\<forall>m data. snd (run f hp df c0 cm) = Returned (Result_dict m data) \<longrightarrow> data = length hp)
   \<and> (\<forall>r < length hp. fst (run_once mon realtime_data now hp) ! r = hp ! r)
   \<and> (\<forall>hp' e. merge_window hp hist_df snapshot = Inr (hp', e) \<longrightarrow>
         e = length hp \<and> (\<forall>r < length hp. hp' ! r = hp ! r))"
proof -
  have a: "\<forall>r < length hp. fst (run f hp df c0 cm) ! r = hp ! r"
    using run_store [of f hp df c0 cm] by (auto simp: nth_append)
  have b: "\<forall>m data. snd (run f hp df c0 cm) = Returned (Result_dict m data) \<longrightarrow> data = length hp"
  proof (intro allI impI)
    fix m data assume r: "snd (run f hp df c0 cm) = Returned (Result_dict m data)"
    obtain hp' where "run f hp df c0 cm = (hp', Returned (Result_dict m data))"
      using r by (cases "run f hp df c0 cm") simp
    from run_Result_dict [OF this] show "data = length hp" by blast
  qed
  have c: "\<forall>r < length hp. fst (run_once mon realtime_data now hp) ! r = hp ! r"
    using run_once_store [of mon realtime_data now hp] by (auto simp: nth_append)
  have d: "\<forall>hp' e. merge_window hp hist_df snapshot = Inr (hp', e) \<longrightarrow>
         e = length hp \<and> (\<forall>r < length hp. hp' ! r = hp ! r)"
  proof (intro allI impI)
    fix hp' e assume "merge_window hp hist_df snapshot = Inr (hp', e)"
    from merge_window_Inr [OF this]
    show "e = length hp \<and> (\<forall>r < length hp. hp' ! r = hp ! r)" by (auto simp: nth_append)
  qed
  from a b c d show ?thesis by (intro conjI)
qed

theorem inputs_not_mutated_witness:
  "fst (run always_long w_store 0 100000 (3 / 10000)) ! 0 = w_frame
   \<and> fst (run_once w_mon [(''600519'', live_bar 2)] ''09:30:00'' w_store) ! 0 = w_frame
   \<and> (\<exists>hp' e. merge_window w_store 0 (live_bar 2) = Inr (hp', e) \<and> e = 1 \<and> hp' ! 0 = w_frame)"
proof -
  have l: "(0::nat) < length w_store" and l1: "length w_store = 1" and l0: "w_store ! 0 = w_frame"
    by (simp_all add: w_store_def)
  have bw: "bar_window (w_store ! 0)"
    by (simp add: w_store_def w_frame_def bar_window_def bar_keys_def)
  have "b_date (live_bar 2) = b_date (last (rows (w_store ! 0))) \<longrightarrow>
      refresh_ok (w_store ! 0) (live_bar 2)"
    by (simp add: w_store_def w_frame_def refresh_ok_def lossy_write_def)
  from merge_window_eq [OF bw this]
  obtain hp' e where m: "merge_window w_store 0 (live_bar 2) = Inr (hp', e)" by blast
  note t = inputs_not_mutated [of w_store always_long 0 100000 "3 / 10000" w_mon
        "[(''600519'', live_bar 2)]" "''09:30:00''" 0 "live_bar 2"]
  from t l have a: "fst (run always_long w_store 0 100000 (3 / 10000)) ! 0 = w_store ! 0"
    by blast
  from t l have b: "fst (run_once w_mon [(''600519'', live_bar 2)] ''09:30:00'' w_store) ! 0
      = w_store ! 0"
    by blast
  from t m l have c: "e = length w_store \<and> hp' ! 0 = w_store ! 0"
    by blast
  from c l1 have e1: "e = 1" by simp
  show ?thesis using a b c m e1 l0 by simp
qed

lemma butlast_replicate_Suc: "butlast (replicate (Suc k) x) = replicate k x"
  by (induction k) simp_all

lemma position_col_long:
  "position_col (replicate (Suc (Suc k)) (Some 1)) = 0 # replicate (Suc k) 1"
  unfolding position_col_def shift1_def
  by (simp only: butlast_replicate_Suc) (simp add: fillna_def)

lemma market_ret_col_Cons2:
  "market_ret_col (a # b # cs) = 0 # (b / a - 1) # map (\<lambda>(p, q). q / p - 1) (zip (b # cs) cs)"
  by (simp add: market_ret_col_def fillna_def comp_def case_prod_unfold)

lemma mult_ones: "length xs = k \<Longrightarrow> map (\<lambda>(p, m). p * m) (zip (replicate k (1::real)) xs) = xs"
  by (induction xs arbitrary: k) auto

lemma minus_zeros: "length xs = k \<Longrightarrow> map (\<lambda>(s, c). s - c) (zip xs (replicate k (0::real))) = xs"
  by (induction xs arbitrary: k) auto

lemma zip_ones: "zip (1 # replicate k (1::real)) (replicate k (1::real)) = replicate k (1, 1)"
  by (induction k) simp_all

lemma trade_occurred_col_long:
  "trade_occurred_col (0 # replicate (Suc k) 1) = 0 # 1 # replicate k 0"
  by (simp add: trade_occurred_col_def fillna_def zip_ones)

lemma net_of_long:
  assumes "length cs = k"
  shows "net_of (a # b # cs) (replicate (Suc (Suc k)) (Some 1)) cm =
           0 # (b / a - 1 - cm) # map (\<lambda>(p, q). q / p - 1) (zip (b # cs) cs)"
proof -
  have l: "length (map (\<lambda>(p, q). q / p - 1) (zip (b # cs) cs)) = k" using assms by simp
  show ?thesis
    unfolding net_of_def position_col_long market_ret_col_Cons2 trade_occurred_col_long
    using mult_ones [OF l] minus_zeros [OF l]
    by (simp add: strategy_ret_col_def net_strategy_ret_col_def cost_col_def)
qed

lemma zip_consecutive:
  "sorted_wrt (<) (x # xs) \<Longrightarrow> (p, q) \<in> set (zip (x # xs) xs) \<Longrightarrow> (x::real) \<le> p \<and> p < q"
proof (induction xs arbitrary: x)
  case Nil
  then show ?case by simp
next
  case (Cons y ys)
  from Cons.prems(2) have "(p, q) = (x, y) \<or> (p, q) \<in> set (zip (y # ys) ys)" by simp
  then show ?case
  proof
    assume "(p, q) = (x, y)"
    then show ?thesis using Cons.prems(1) by simp
  next
    assume m: "(p, q) \<in> set (zip (y # ys) ys)"
    have "sorted_wrt (<) (y # ys)" using Cons.prems(1) by simp
    from Cons.IH [OF this m] have "y \<le> p \<and> p < q" .
    moreover have "x < y" using Cons.prems(1) by simp
    ultimately show ?thesis by simp
  qed
qed

lemma cumprod_from_ge:
  "0 < acc \<Longrightarrow> \<forall>x \<in> set xs. 1 \<le> x \<Longrightarrow> \<forall>y \<in> set (cumprod_from acc xs). acc \<le> y"
proof (induction xs arbitrary: acc)
  case Nil
  then show ?case by simp
next
  case (Cons x xs)
  have x: "1 \<le> x" using Cons.prems(2) by simp
  have ax: "acc \<le> acc * x" using Cons.prems(1) x by simp
  then have pos: "0 < acc * x" using Cons.prems(1) by linarith
  have "\<forall>y \<in> set (cumprod_from (acc * x) xs). acc * x \<le> y"
    using Cons.IH [OF pos] Cons.prems(2) by simp
  then show ?case using ax by auto
qed

lemma cumprod_from_sorted:
  "0 < acc \<Longrightarrow> \<forall>x \<in> set xs. 1 \<le> x \<Longrightarrow> sorted (cumprod_from acc xs)"
proof (induction xs arbitrary: acc)
  case Nil
  then show ?case by simp
next
  case (Cons x xs)
  have x: "1 \<le> x" using Cons.prems(2) by simp
  have "acc \<le> acc * x" using Cons.prems(1) x by simp
  then have pos: "0 < acc * x" using Cons.prems(1) by linarith
  have "sorted (cumprod_from (acc * x) xs)" using Cons.IH [OF pos] Cons.prems(2) by simp
  moreover have "\<forall>y \<in> set (cumprod_from (acc * x) xs). acc * x \<le> y"
    using cumprod_from_ge [OF pos, of xs] Cons.prems(2) by simp
  ultimately show ?case by simp
qed

lemma cummax_from_sorted: "sorted (m # xs) \<Longrightarrow> cummax_from m xs = xs"
proof (induction xs arbitrary: m)
  case Nil
  then show ?case by simp
next
  case (Cons x xs)
  have "max m x = x" using Cons.prems by simp
  moreover have "sorted (x # xs)" using Cons.prems by simp
  ultimately show ?case using Cons.IH [of x] by simp
qed

lemma expanding_max_sorted: "sorted xs \<Longrightarrow> expanding_max xs = xs"
  by (cases xs) (simp_all add: cummax_from_sorted)

lemma fold_min_zeros: "fold min (map (\<lambda>e. 0) xs) (0::real) = 0"
  by (induction xs) simp_all

lemma series_min_zeros: "series_min (map (\<lambda>e. 0) xs) = 0"
  by (cases xs) (simp_all add: fold_min_zeros)

lemma drawdown_sorted:
  assumes "sorted equity"
  shows "series_min (map (\<lambda>(e, m). (e - m) / m) (zip equity (expanding_max equity))) = 0"
proof -
  have "map (\<lambda>(e, m). (e - m) / m) (zip equity equity) = map (\<lambda>e. 0) equity"
    by (induction equity) simp_all
  then show ?thesis using assms by (simp add: expanding_max_sorted series_min_zeros)
qed

lemma calculate_metrics_fields:
  assumes "equity \<noteq> []"
  shows "\<exists>m. calculate_metrics equity net position c0 = Inr m
       \<and> total_return m = (last equity - c0) / c0
       \<and> max_drawdown m =
           series_min (map (\<lambda>(e, m). (e - m) / m) (zip equity (expanding_max equity)))"
  using assms by (simp add: calculate_metrics_def Let_def)


lemma sorted_scale: "sorted xs \<Longrightarrow> 0 \<le> c \<Longrightarrow> sorted (map (\<lambda>p. p * c) (xs::real list))"
  by (induction xs) (auto simp: mult_right_mono)

lemma run_metrics_computes:
  assumes "list_all (\<lambda>col. col \<in> set (columns (hp ! df))) required_cols"
    and "assign_signal (length (rows (hp ! df))) (f (hp ! df)) = Inr signal"
    and "equity_of (map b_close (rows (hp ! df))) signal c0 cm \<noteq> []"
  shows "\<exists>m. run_metrics f hp df c0 cm = Some m
       \<and> total_return m
           = (last (equity_of (map b_close (rows (hp ! df))) signal c0 cm) - c0) / c0
       \<and> max_drawdown m =
           series_min (map (\<lambda>(e, m). (e - m) / m)
              (zip (equity_of (map b_close (rows (hp ! df))) signal c0 cm)
                   (expanding_max (equity_of (map b_close (rows (hp ! df))) signal c0 cm))))"
proof -
  from calculate_metrics_fields [OF assms(3),
      of "net_of (map b_close (rows (hp ! df))) signal cm" "position_col signal" c0]
  obtain m where m: "calculate_metrics (equity_of (map b_close (rows (hp ! df))) signal c0 cm)
        (net_of (map b_close (rows (hp ! df))) signal cm) (position_col signal) c0 = Inr m"
    and t: "total_return m
           = (last (equity_of (map b_close (rows (hp ! df))) signal c0 cm) - c0) / c0"
    and d: "max_drawdown m =
           series_min (map (\<lambda>(e, m). (e - m) / m)
              (zip (equity_of (map b_close (rows (hp ! df))) signal c0 cm)
                   (expanding_max (equity_of (map b_close (rows (hp ! df))) signal c0 cm))))"
    by blast
  from run_computes [where f = f and hp = hp and df = df and ?c0.0 = c0 and cm = cm,
      OF assms(1) assms(2)]
  obtain fr where "run f hp df c0 cm =
      (hp @ [fr],
       Returned (case calculate_metrics (equity_of (map b_close (rows (hp ! df))) signal c0 cm)
                        (net_of (map b_close (rows (hp ! df))) signal cm)
                        (position_col signal) c0 of
                   Inl (PyExn msg) \<Rightarrow> Error_dict msg
                 | Inr m \<Rightarrow> Result_dict m (length hp)))"
    by blast
  then have "run f hp df c0 cm = (hp @ [fr], Returned (Result_dict m (length hp)))"
    by (simp only: m sum.case)
  then have "run_metrics f hp df c0 cm = Some m" by (simp add: run_metrics_def)
  then show ?thesis using t d by blast
qed

text \<open>
  C6 (as amended). On a frame with at least two rows whose closes are positive and
  strictly increasing, with a signal column that is 1 everywhere, a positive initial
  capital and a commission rate below the first bar-to-bar return
  \<open>close[1] / close[0] - 1\<close>, the backtest returns statistics with a positive total return
  and a maximum drawdown of 0.
\<close>

theorem always_long_rising:
  assumes cols: "list_all (\<lambda>col. col \<in> set (columns (hp ! df))) required_cols"
    and closes: "map b_close (rows (hp ! df)) = a # b # cs"
    and rising: "sorted_wrt (<) (a # b # cs)" and pos: "0 < a"
    and long: "assign_signal (length (rows (hp ! df))) (f (hp ! df))
                 = Inr (replicate (length (rows (hp ! df))) (Some 1))"
    and fee: "cm < b / a - 1" and cap: "0 < c0"
  shows "\<exists>m. run_metrics f hp df c0 cm = Some m \<and> 0 < total_return m \<and> max_drawdown m = 0"
proof -
  let ?k = "length cs"
  let ?sig = "replicate (Suc (Suc ?k)) (Some (1::real))"
  let ?ms = "map (\<lambda>(p, q). q / p - 1) (zip (b # cs) cs)"
  let ?d = "b / a - 1 - cm"
  have n: "length (rows (hp ! df)) = Suc (Suc ?k)"
    using arg_cong [OF closes, of length] by simp
  have net: "net_of (a # b # cs) ?sig cm = 0 # ?d # ?ms"
    by (rule net_of_long) simp
  have d: "0 < ?d" using fee by simp
  have ms: "\<forall>x \<in> set ?ms. 0 < x"
  proof
    fix x assume "x \<in> set ?ms"
    then obtain p q where pq: "(p, q) \<in> set (zip (b # cs) cs)" and x: "x = q / p - 1" by auto
    have "sorted_wrt (<) (b # cs)" using rising by simp
    from zip_consecutive [OF this pq] have "b \<le> p" "p < q" by simp_all
    moreover have "a < b" using rising by simp
    ultimately have "0 < p" "p < q" using pos by simp_all
    then show "0 < x" using x by simp
  qed
  let ?g = "map (\<lambda>r. 1 + r) ?ms"
  have g: "\<forall>x \<in> set ?g. 1 \<le> x" using ms by auto
  have cp: "cumprod (map (\<lambda>r. 1 + r) (0 # ?d # ?ms)) = 1 # (1 + ?d) # cumprod_from (1 + ?d) ?g"
    by (simp add: cumprod_def)
  have all1: "\<forall>x \<in> set (map (\<lambda>r. 1 + r) (0 # ?d # ?ms)). 1 \<le> x"
    using d g by simp
  have srt: "sorted (cumprod (map (\<lambda>r. 1 + r) (0 # ?d # ?ms)))"
    unfolding cumprod_def by (rule cumprod_from_sorted [OF _ all1]) simp
  let ?E = "equity_of (a # b # cs) ?sig c0 cm"
  have E: "?E = map (\<lambda>p. p * c0) (1 # (1 + ?d) # cumprod_from (1 + ?d) ?g)"
    by (simp only: equity_of_def equity_curve_col_def net cp)
  have Es: "sorted ?E"
    unfolding equity_of_def equity_curve_col_def net
    by (rule sorted_scale [OF srt]) (use cap in simp)
  have Ene: "?E \<noteq> []" using E by simp
  have ge: "\<forall>y \<in> set (cumprod_from (1 + ?d) ?g). 1 + ?d \<le> y"
    by (rule cumprod_from_ge [OF _ g]) (use d in simp)
  have "last ((1 + ?d) # cumprod_from (1 + ?d) ?g) \<in> set ((1 + ?d) # cumprod_from (1 + ?d) ?g)"
    by (rule last_in_set) simp
  then have L: "1 + ?d \<le> last ((1 + ?d) # cumprod_from (1 + ?d) ?g)"
    using ge by auto
  have lastE: "last ?E = last ((1 + ?d) # cumprod_from (1 + ?d) ?g) * c0"
    unfolding E by (simp add: last_map)
  have tr: "0 < (last ?E - c0) / c0"
  proof -
    have "1 < last ((1 + ?d) # cumprod_from (1 + ?d) ?g)" using L d by linarith
    then have "c0 < last ((1 + ?d) # cumprod_from (1 + ?d) ?g) * c0" using cap by simp
    then show ?thesis using cap lastE by simp
  qed
  have lg: "assign_signal (length (rows (hp ! df))) (f (hp ! df)) = Inr ?sig"
    using long n by simp
  have Ene': "equity_of (map b_close (rows (hp ! df))) ?sig c0 cm \<noteq> []"
    using Ene closes by simp
  from run_metrics_computes [where f = f and hp = hp and df = df, OF cols lg Ene', unfolded closes]
  obtain m where "run_metrics f hp df c0 cm = Some m"
    and "total_return m = (last ?E - c0) / c0"
    and "max_drawdown m =
           series_min (map (\<lambda>(e, m). (e - m) / m) (zip ?E (expanding_max ?E)))"
    by blast
  then show ?thesis using tr drawdown_sorted [OF Es] by auto
qed

theorem always_long_rising_witness:
  "\<exists>m. run_metrics always_long [rise_frame] 0 100000 (3 / 10000) = Some m
     \<and> 0 < total_return m \<and> max_drawdown m = 0"
proof -
  have cols: "list_all (\<lambda>col. col \<in> set (columns ([rise_frame] ! 0))) required_cols"
    by (simp add: rise_frame_def bar_keys_def required_cols_def)
  have closes: "map b_close (rows ([rise_frame] ! 0)) = 100 # 110 # []"
    by (simp add: rise_frame_def)
  have rising: "sorted_wrt (<) (100 # 110 # ([]::real list))" by simp
  have long: "assign_signal (length (rows ([rise_frame] ! 0))) (always_long ([rise_frame] ! 0))
                 = Inr (replicate (length (rows ([rise_frame] ! 0))) (Some 1))"
    by (simp add: assign_signal_def always_long_def)
  have fee: "(3 / 10000 :: real) < 110 / 100 - 1" by simp
  show ?thesis
    by (rule always_long_rising [where f = always_long and hp = "[rise_frame]" and df = 0,
          OF cols closes rising _ long fee]) simp_all
qed

text \<open>
  C6 as stated fails: on the two closes 10000 and 10001, strictly increasing, with an
  always-long signal and the default commission of 0.03 percent, the cost of entering the
  position exceeds the gain of 0.01 percent, and both the total return and the maximum
  drawdown are -0.0002.
\<close>

theorem always_long_rising_counterexample:
  "sorted_wrt (<) (map b_close (rows ([c6_frame] ! 0)))
   \<and> assign_signal (length (rows ([c6_frame] ! 0))) (always_long ([c6_frame] ! 0))
       = Inr [Some 1, Some 1]
   \<and> map_option total_return (run_metrics always_long [c6_frame] 0 100000 (3 / 10000))
       = Some (- (1 / 5000))
   \<and> map_option max_drawdown (run_metrics always_long [c6_frame] 0 100000 (3 / 10000))
       = Some (- (1 / 5000))"
proof -
  have cols: "list_all (\<lambda>col. col \<in> set (columns ([c6_frame] ! 0))) required_cols"
    by (simp add: c6_frame_def bar_keys_def required_cols_def)
  have closes: "map b_close (rows ([c6_frame] ! 0)) = [10000, 10001]"
    by (simp add: c6_frame_def)
  have sg: "assign_signal (length (rows ([c6_frame] ! 0))) (always_long ([c6_frame] ! 0))
       = Inr [Some 1, Some 1]"
    by (simp add: assign_signal_def always_long_def c6_frame_def)
  have E: "equity_of [10000, 10001] [Some 1, Some 1] 100000 (3 / 10000) = [100000, 99980]"
    by (simp add: equity_of_def equity_curve_col_def net_of_def net_strategy_ret_col_def
        strategy_ret_col_def cost_col_def trade_occurred_col_def position_col_def
        market_ret_col_def shift1_def fillna_def cumprod_def)
  have ne: "equity_of (map b_close (rows ([c6_frame] ! 0))) [Some 1, Some 1] 100000 (3 / 10000) \<noteq> []"
    unfolding closes E by simp
  from run_metrics_computes [where f = always_long and hp = "[c6_frame]" and df = 0,
      OF cols sg ne, unfolded closes E]
  obtain m where m: "run_metrics always_long [c6_frame] 0 100000 (3 / 10000) = Some m"
    and t: "total_return m = (last [100000, 99980] - 100000) / 100000"
    and d: "max_drawdown m = series_min (map (\<lambda>(e, m). (e - m) / m)
              (zip [100000, 99980] (expanding_max [100000, 99980])))"
    by blast
  have t': "total_return m = - (1 / 5000)" unfolding t by simp
  have d': "max_drawdown m = - (1 / 5000)" unfolding d by simp
  show ?thesis using closes sg m t' d' by simp
qed

end
